theory Spec2Isabelle
  imports Complex_Main
begin

section \<open>Conventions of the embedding\<close>

text \<open>
  The development embeds the material-resolution routines of \<^verbatim>\<open>src/meepgeom.cpp\<close>.

  A C \<^verbatim>\<open>double\<close> is read as a real number: rounding is not modelled.  A division whose
  divisor can be zero leaves the real numbers in IEEE arithmetic (an infinity or a NaN).
  Two devices keep such points visible instead of using the convention \<open>x / 0 = 0\<close> of HOL:
  the entries of an inverted tensor, which are only ever output, have the type \<open>ext\<close>
  with the values \<open>Inf\<close> and \<open>NaN\<close>; and a routine whose intermediate
  results would stop being finite returns \<open>Inl Non_finite\<close>.  \<open>Inl (Abort msg)\<close> is a
  call of \<^verbatim>\<open>meep::abort\<close> with that message.  \<open>Inl Undefined\<close> is a read of an
  unassigned variable or an access outside an array, and \<open>Inl Default_replaced\<close> a change
  of the global default material; the embedding follows neither any further.
\<close>

datatype failure = Abort string | Non_finite | Undefined | Default_replaced

datatype ext = Fin real | Inf | NaN

definition fdiv :: "real \<Rightarrow> real \<Rightarrow> ext" where
  "fdiv a b = (if b \<noteq> 0 then Fin (a / b) else if a = 0 then NaN else Inf)"

section \<open>Vectors and symmetric tensors\<close>

record vector3 =
  vx :: real
  vy :: real
  vz :: real

record 'a symm_matrix =
  m00 :: 'a
  m01 :: 'a
  m02 :: 'a
  m11 :: 'a
  m12 :: 'a
  m22 :: 'a

text \<open>A \<^verbatim>\<open>double[3][3]\<close>; the field \<open>rIJ\<close> is the entry \<^verbatim>\<open>[I][J]\<close>.\<close>

record mat3 =
  r00 :: real
  r01 :: real
  r02 :: real
  r10 :: real
  r11 :: real
  r12 :: real
  r20 :: real
  r21 :: real
  r22 :: real

text \<open>The local array \<^verbatim>\<open>A\<close> of \<^verbatim>\<open>sym_matrix_rotate\<close>: the full matrix of a symmetric one.\<close>

definition sym_full :: "real symm_matrix \<Rightarrow> mat3" where
  "sym_full A = \<lparr>r00 = m00 A, r01 = m01 A, r02 = m02 A,
                 r10 = m01 A, r11 = m11 A, r12 = m12 A,
                 r20 = m02 A, r21 = m12 A, r22 = m22 A\<rparr>"

text \<open>The first loop nest of \<^verbatim>\<open>sym_matrix_rotate\<close>:
  \<^verbatim>\<open>AR[i][j] = A[i][0] * R[0][j] + A[i][1] * R[1][j] + A[i][2] * R[2][j]\<close>.\<close>

definition mat_mul :: "mat3 \<Rightarrow> mat3 \<Rightarrow> mat3" where
  "mat_mul A R =
     \<lparr>r00 = r00 A * r00 R + r01 A * r10 R + r02 A * r20 R,
      r01 = r00 A * r01 R + r01 A * r11 R + r02 A * r21 R,
      r02 = r00 A * r02 R + r01 A * r12 R + r02 A * r22 R,
      r10 = r10 A * r00 R + r11 A * r10 R + r12 A * r20 R,
      r11 = r10 A * r01 R + r11 A * r11 R + r12 A * r21 R,
      r12 = r10 A * r02 R + r11 A * r12 R + r12 A * r22 R,
      r20 = r20 A * r00 R + r21 A * r10 R + r22 A * r20 R,
      r21 = r20 A * r01 R + r21 A * r11 R + r22 A * r21 R,
      r22 = r20 A * r02 R + r21 A * r12 R + r22 A * r22 R\<rparr>"

text \<open>\<^verbatim>\<open>sym_matrix_rotate\<close>: \<open>RAR = transpose R * A * R\<close>, of which the second loop nest
  (\<^verbatim>\<open>for (j = i; ...)\<close>) computes the upper triangle only.\<close>

definition sym_matrix_rotate :: "real symm_matrix \<Rightarrow> mat3 \<Rightarrow> real symm_matrix" where
  "sym_matrix_rotate A R =
     (let AR = mat_mul (sym_full A) R in
      \<lparr>m00 = r00 R * r00 AR + r10 R * r10 AR + r20 R * r20 AR,
       m01 = r00 R * r01 AR + r10 R * r11 AR + r20 R * r21 AR,
       m02 = r00 R * r02 AR + r10 R * r12 AR + r20 R * r22 AR,
       m11 = r01 R * r01 AR + r11 R * r11 AR + r21 R * r21 AR,
       m12 = r01 R * r02 AR + r11 R * r12 AR + r21 R * r22 AR,
       m22 = r02 R * r02 AR + r12 R * r12 AR + r22 R * r22 AR\<rparr>)"

text \<open>The determinant as \<^verbatim>\<open>sym_matrix_invert\<close> computes it into \<^verbatim>\<open>detinv\<close>.\<close>

definition sym_det :: "real symm_matrix \<Rightarrow> real" where
  "sym_det V = m00 V * m11 V * m22 V - m02 V * m11 V * m02 V + 2 * m01 V * m12 V * m02 V
               - m01 V * m01 V * m22 V - m12 V * m12 V * m00 V"

definition offdiag_zero :: "real symm_matrix \<Rightarrow> bool" where
  "offdiag_zero V = (m01 V = 0 \<and> m02 V = 0 \<and> m12 V = 0)"

text \<open>\<^verbatim>\<open>sym_matrix_invert\<close>.  The diagonal branch divides without any test, so its entries
  are \<open>ext\<close> values; in the other branch \<^verbatim>\<open>detinv\<close> is nonzero when it is inverted.\<close>

definition sym_matrix_invert :: "real symm_matrix \<Rightarrow> failure + ext symm_matrix" where
  "sym_matrix_invert V =
     (if offdiag_zero V then
        Inr \<lparr>m00 = fdiv 1 (m00 V), m01 = Fin 0, m02 = Fin 0,
             m11 = fdiv 1 (m11 V), m12 = Fin 0, m22 = fdiv 1 (m22 V)\<rparr>
      else if sym_det V = 0 then Inl (Abort ''singular 3x3 matrix'')
      else
        (let detinv = 1 / sym_det V in
         Inr \<lparr>m00 = Fin (detinv * (m11 V * m22 V - m12 V * m12 V)),
              m01 = Fin (detinv * (m12 V * m02 V - m01 V * m22 V)),
              m02 = Fin (detinv * (m01 V * m12 V - m11 V * m02 V)),
              m11 = Fin (detinv * (m00 V * m22 V - m02 V * m02 V)),
              m12 = Fin (detinv * (m01 V * m02 V - m00 V * m12 V)),
              m22 = Fin (detinv * (m11 V * m00 V - m01 V * m01 V))\<rparr>))"

text \<open>\<^verbatim>\<open>sym_matrix_positive_definite\<close>, the real-matrix variant.\<close>

definition sym_matrix_positive_definite :: "real symm_matrix \<Rightarrow> bool" where
  "sym_matrix_positive_definite V =
     (let det2 = m00 V * m11 V - m01 V * m01 V;
          det3 = det2 * m22 V - m02 V * m11 V * m02 V + 2 * m01 V * m12 V * m02 V
                 - m12 V * m12 V * m00 V
      in m00 V > 0 \<and> det2 > 0 \<and> det3 > 0)"

section \<open>Density grids\<close>

text \<open>\<^verbatim>\<open>tanh_projection\<close>: the two guards come first, in the order of the source.\<close>

definition tanh_projection :: "real \<Rightarrow> real \<Rightarrow> real \<Rightarrow> real" where
  "tanh_projection u \<beta> \<eta> =
     (if \<beta> = 0 then u
      else if u = \<eta> then 0.5
      else (let tanh_beta_eta = tanh (\<beta> * \<eta>) in
            (tanh_beta_eta + tanh (\<beta> * (u - \<eta>))) / (tanh_beta_eta + tanh (\<beta> * (1 - \<eta>)))))"

section \<open>Materials\<close>

record cvector3 =
  cx :: complex
  cy :: complex
  cz :: complex

record susceptibility =
  sigma_diag :: vector3
  sigma_offdiag :: vector3
  bias :: vector3
  frequency :: real
  gamma :: real
  alpha :: real
  noise_amp :: real
  drude :: bool
  saturated_gyrotropy :: bool
  is_file :: bool

record medium_struct =
  epsilon_diag :: vector3
  epsilon_offdiag :: cvector3
  mu_diag :: vector3
  mu_offdiag :: cvector3
  E_susceptibilities :: "susceptibility list"
  H_susceptibilities :: "susceptibility list"
  E_chi2_diag :: vector3
  E_chi3_diag :: vector3
  H_chi2_diag :: vector3
  H_chi3_diag :: vector3
  D_conductivity_diag :: vector3
  B_conductivity_diag :: vector3

datatype material_subclass = MEDIUM | MATERIAL_FILE | MATERIAL_USER | MATERIAL_GRID | PERFECT_METAL

datatype material_grid_kind = U_MIN | U_PROD | U_MEAN | U_DEFAULT

text \<open>
  \<^verbatim>\<open>material_data\<close>.  A \<^verbatim>\<open>material_type\<close> is a pointer to one: \<open>addr\<close> is the
  address, so that pointer equality is equality of \<open>addr\<close>.  \<open>user_func\<close> and
  \<open>user_data\<close> are the addresses held in those fields.  \<open>weights\<close> and
  \<open>epsilon_data\<close> are \<open>None\<close> for a null pointer.
\<close>

record material_data =
  addr :: nat
  which_subclass :: material_subclass
  medium :: medium_struct
  medium_1 :: medium_struct
  medium_2 :: medium_struct
  user_func :: nat
  user_data :: nat
  do_averaging :: bool
  beta :: real
  eta :: real
  damping :: real
  material_grid_kinds :: material_grid_kind
  weights :: "real list option"
  epsilon_data :: "real list option"
  trivial :: bool

definition vector3_equal :: "vector3 \<Rightarrow> vector3 \<Rightarrow> bool" where
  "vector3_equal a b = (vx a = vx b \<and> vy a = vy b \<and> vz a = vz b)"

definition cvector3_equal :: "cvector3 \<Rightarrow> cvector3 \<Rightarrow> bool" where
  "cvector3_equal a b =
     (Re (cx a) = Re (cx b) \<and> Im (cx a) = Im (cx b) \<and>
      Re (cy a) = Re (cy b) \<and> Im (cy a) = Im (cy b) \<and>
      Re (cz a) = Re (cz b) \<and> Im (cz a) = Im (cz b))"

definition susceptibility_equal :: "susceptibility \<Rightarrow> susceptibility \<Rightarrow> bool" where
  "susceptibility_equal s1 s2 =
     (vector3_equal (sigma_diag s1) (sigma_diag s2) \<and>
      vector3_equal (sigma_offdiag s1) (sigma_offdiag s2) \<and>
      vector3_equal (bias s1) (bias s2) \<and>
      frequency s1 = frequency s2 \<and> gamma s1 = gamma s2 \<and> alpha s1 = alpha s2 \<and>
      noise_amp s1 = noise_amp s2 \<and> drude s1 = drude s2 \<and>
      saturated_gyrotropy s1 = saturated_gyrotropy s2 \<and> is_file s1 = is_file s2)"

definition susceptibility_list_equal :: "susceptibility list \<Rightarrow> susceptibility list \<Rightarrow> bool" where
  "susceptibility_list_equal s1 s2 =
     (length s1 = length s2 \<and> list_all2 susceptibility_equal s1 s2)"

text \<open>\<^verbatim>\<open>medium_struct_equal\<close>: the source does not compare \<^verbatim>\<open>H_chi3_diag\<close>.\<close>

definition medium_struct_equal :: "medium_struct \<Rightarrow> medium_struct \<Rightarrow> bool" where
  "medium_struct_equal a b =
     (vector3_equal (epsilon_diag a) (epsilon_diag b) \<and>
      cvector3_equal (epsilon_offdiag a) (epsilon_offdiag b) \<and>
      vector3_equal (mu_diag a) (mu_diag b) \<and>
      cvector3_equal (mu_offdiag a) (mu_offdiag b) \<and>
      vector3_equal (E_chi2_diag a) (E_chi2_diag b) \<and>
      vector3_equal (E_chi3_diag a) (E_chi3_diag b) \<and>
      vector3_equal (H_chi2_diag a) (H_chi2_diag b) \<and>
      vector3_equal (D_conductivity_diag a) (D_conductivity_diag b) \<and>
      vector3_equal (B_conductivity_diag a) (B_conductivity_diag b) \<and>
      susceptibility_list_equal (E_susceptibilities a) (E_susceptibilities b) \<and>
      susceptibility_list_equal (H_susceptibilities a) (H_susceptibilities b))"

definition material_type_equal :: "material_data \<Rightarrow> material_data \<Rightarrow> bool" where
  "material_type_equal a b =
     (if addr a = addr b then True
      else if which_subclass a \<noteq> which_subclass b then False
      else (case which_subclass a of
              MATERIAL_FILE \<Rightarrow> True
            | PERFECT_METAL \<Rightarrow> True
            | MATERIAL_USER \<Rightarrow> user_func a = user_func b \<and> user_data a = user_data b
            | MATERIAL_GRID \<Rightarrow> medium_struct_equal (medium a) (medium b)
            | MEDIUM \<Rightarrow> medium_struct_equal (medium a) (medium b)))"

definition is_material_grid :: "material_data \<Rightarrow> bool" where
  "is_material_grid mt = (which_subclass mt = MATERIAL_GRID)"

definition is_variable :: "material_data \<Rightarrow> bool \<Rightarrow> bool" where
  "is_variable mt include_mg =
     (if \<not> include_mg \<and> is_material_grid mt then False
      else (which_subclass mt = MATERIAL_USER \<or> which_subclass mt = MATERIAL_GRID \<or>
            which_subclass mt = MATERIAL_FILE))"

datatype field_type = E_stuff | H_stuff

definition is_metal :: "field_type \<Rightarrow> material_data \<Rightarrow> bool" where
  "is_metal ft md =
     (case ft of
        E_stuff \<Rightarrow>
          (case which_subclass md of
             PERFECT_METAL \<Rightarrow> True
           | _ \<Rightarrow> vx (epsilon_diag (medium md)) < 0 \<or> vy (epsilon_diag (medium md)) < 0 \<or>
                  vz (epsilon_diag (medium md)) < 0)
      | H_stuff \<Rightarrow>
          (case which_subclass md of
             PERFECT_METAL \<Rightarrow> False
           | _ \<Rightarrow> vx (mu_diag (medium md)) < 0 \<or> vy (mu_diag (medium md)) < 0 \<or>
                  vz (mu_diag (medium md)) < 0))"

section \<open>The geometry as the routines see it\<close>

datatype ndim = D1 | D2 | D3 | Dcyl

text \<open>
  An entry of the bounding-box tree.  The tree and its search routines belong to libctl;
  of an entry the routines below read only the material of its object.
\<close>

record geom_box_object =
  gbo_id :: nat
  gbo_material :: material_data

text \<open>
  What the routines read of their surroundings: file-static and libctl globals, members
  of \<^verbatim>\<open>geom_epsilon\<close>, and the library routines they call, each taken as it is given.
  \<^item> \<open>geometry_tree p\<close>, \<open>restricted_tree p\<close>: the entries that \<^verbatim>\<open>geom_tree_search\<close> and then
    repeated \<^verbatim>\<open>geom_tree_search_next\<close> return at the point \<open>p\<close>, in that order; the empty
    list is a null first result.
  \<^item> \<open>to_geom_box_coords\<close>, \<open>linear_interpolate md\<close> (of \<^verbatim>\<open>md->weights\<close> with
    \<^verbatim>\<open>md->grid_size\<close>), \<open>material_of_point\<close>
    (\<^verbatim>\<open>material_of_unshifted_point_in_tree_inobject\<close> on the restricted tree): library
    routines.
  \<^item> \<open>grid_gradient\<close>: the vector that \<^verbatim>\<open>material_grid_grad\<close> returns after its test of
    the material; a \<^verbatim>\<open>meep::vec\<close> is written as the \<open>vector3\<close> that
    \<^verbatim>\<open>vec_to_vector3\<close> gives for it.
  \<^item> \<open>user_material\<close>: the medium a user's material function leaves, started from vacuum;
    \<open>file_epsilon\<close>: the interpolated value of \<^verbatim>\<open>epsilon_data\<close>.
  \<^item> \<open>infinity\<close>: \<^verbatim>\<open>meep::infinity\<close>; \<open>debug\<close>: whether \<^verbatim>\<open>DEBUG\<close> is defined.
\<close>

record geom_epsilon =
  dim :: ndim
  default_material :: material_data
  geometry_lattice_size :: vector3
  geometry_center :: vector3
  geometry_tree :: "vector3 \<Rightarrow> geom_box_object list"
  restricted_tree :: "vector3 \<Rightarrow> geom_box_object list"
  to_geom_box_coords :: "vector3 \<Rightarrow> geom_box_object \<Rightarrow> vector3"
  linear_interpolate :: "material_data \<Rightarrow> vector3 \<Rightarrow> real"
  grid_gradient :: "vector3 \<Rightarrow> material_data \<Rightarrow> geom_box_object option \<Rightarrow> vector3"
  material_of_point :: "vector3 \<Rightarrow> material_data"
  user_material :: "material_data \<Rightarrow> vector3 \<Rightarrow> medium_struct"
  file_epsilon :: "material_data \<Rightarrow> vector3 \<Rightarrow> real"
  u_p :: real
  infinity :: real
  debug :: bool

definition map_lattice_coordinates :: "geom_epsilon \<Rightarrow> vector3 \<Rightarrow> vector3" where
  "map_lattice_coordinates g p =
     \<lparr>vx = (if vx (geometry_lattice_size g) = 0 then 0
            else 0.5 + (vx p - vx (geometry_center g)) / vx (geometry_lattice_size g)),
      vy = (if vy (geometry_lattice_size g) = 0 then 0
            else 0.5 + (vy p - vy (geometry_center g)) / vy (geometry_lattice_size g)),
      vz = (if vz (geometry_lattice_size g) = 0 then 0
            else 0.5 + (vz p - vz (geometry_center g)) / vz (geometry_lattice_size g))\<rparr>"

definition material_grid_val :: "geom_epsilon \<Rightarrow> vector3 \<Rightarrow> material_data \<Rightarrow> failure + real" where
  "material_grid_val g p md =
     (if \<not> is_material_grid md then Inl (Abort ''Invalid material grid detected.'')
      else Inr (linear_interpolate g md p))"

definition material_grid_grad ::
  "geom_epsilon \<Rightarrow> vector3 \<Rightarrow> material_data \<Rightarrow> geom_box_object option \<Rightarrow> failure + vector3" where
  "material_grid_grad g p md ob =
     (if \<not> is_material_grid md then Inl (Abort ''Invalid material grid detected.'')
      else Inr (grid_gradient g p md ob))"

text \<open>The locals of \<^verbatim>\<open>matgrid_val\<close>.\<close>

record matgrid_acc =
  uprod :: real
  umin :: real
  usum :: real
  udefault :: real
  matgrid_val_count :: nat

text \<open>
  The \<^verbatim>\<open>do ... while\<close> loop of \<^verbatim>\<open>matgrid_val\<close>, entered with a non-null \<^verbatim>\<open>tp\<close>: the list is
  the entry at \<^verbatim>\<open>(tp, oi)\<close> followed by those that \<^verbatim>\<open>geom_tree_search_next\<close> enumerates.  The
  result holds the locals and whether \<^verbatim>\<open>tp\<close> is non-null after the loop.
\<close>

fun matgrid_val_loop ::
  "geom_epsilon \<Rightarrow> vector3 \<Rightarrow> material_grid_kind \<Rightarrow> geom_box_object list \<Rightarrow> matgrid_acc \<Rightarrow>
   failure + (matgrid_acc \<times> bool)" where
  "matgrid_val_loop g p k [] a = Inr (a, False)"
| "matgrid_val_loop g p k (ob # rest) a =
     (case material_grid_val g (to_geom_box_coords g p ob) (gbo_material ob) of
        Inl e \<Rightarrow> Inl e
      | Inr u \<Rightarrow>
          if k = U_DEFAULT then Inr (a\<lparr>udefault := u\<rparr>, True)
          else
            (let a' = a\<lparr>umin := (if u < umin a then u else umin a),
                        uprod := uprod a * u,
                        usum := usum a + u,
                        matgrid_val_count := matgrid_val_count a + 1\<rparr>
             in (case rest of
                   [] \<Rightarrow> Inr (a', False)
                 | nxt # _ \<Rightarrow>
                     if is_material_grid (gbo_material nxt) then matgrid_val_loop g p k rest a'
                     else Inr (a', True))))"

text \<open>\<^verbatim>\<open>matgrid_val(p, tp, oi, md)\<close>; \<open>tp\<close> is the list of entries from \<^verbatim>\<open>(tp, oi)\<close> on.  The mean
  over no grid at all is the quotient \<open>0 / 0\<close>.\<close>

definition matgrid_val ::
  "geom_epsilon \<Rightarrow> vector3 \<Rightarrow> geom_box_object list \<Rightarrow> material_data \<Rightarrow> failure + real" where
  "matgrid_val g p tp md =
     (let k = material_grid_kinds md;
          a0 = \<lparr>uprod = 1, umin = 1, usum = 0, udefault = 0, matgrid_val_count = 0\<rparr>
      in case matgrid_val_loop g p k tp a0 of
           Inl e \<Rightarrow> Inl e
         | Inr (a, tp_left) \<Rightarrow>
             (case (if \<not> tp_left \<and> is_material_grid (default_material g) then
                      (case material_grid_val g (map_lattice_coordinates g p) (default_material g) of
                         Inl e \<Rightarrow> Inl e
                       | Inr u \<Rightarrow>
                           Inr (a\<lparr>udefault := (if matgrid_val_count a = 0 then u else udefault a),
                                  umin := (if u < umin a then u else umin a),
                                  uprod := uprod a * u,
                                  usum := usum a + u,
                                  matgrid_val_count := matgrid_val_count a + 1\<rparr>))
                    else Inr a) of
                Inl e \<Rightarrow> Inl e
              | Inr b \<Rightarrow>
                  (case k of
                     U_MIN \<Rightarrow> Inr (umin b)
                   | U_PROD \<Rightarrow> Inr (uprod b)
                   | U_MEAN \<Rightarrow>
                       if matgrid_val_count b = 0 then Inl Non_finite
                       else Inr (usum b / real (matgrid_val_count b))
                   | U_DEFAULT \<Rightarrow> Inr (udefault b))))"

definition vector3_plus :: "vector3 \<Rightarrow> vector3 \<Rightarrow> vector3" where
  "vector3_plus a b = \<lparr>vx = vx a + vx b, vy = vy a + vy b, vz = vz a + vz b\<rparr>"

definition vector3_scale :: "real \<Rightarrow> vector3 \<Rightarrow> vector3" where
  "vector3_scale s a = \<lparr>vx = s * vx a, vy = s * vy a, vz = s * vz a\<rparr>"

text \<open>The loop of \<^verbatim>\<open>matgrid_grad\<close>, of the same shape; the state is the gradient and the
  counter.\<close>

fun matgrid_grad_loop ::
  "geom_epsilon \<Rightarrow> vector3 \<Rightarrow> material_grid_kind \<Rightarrow> geom_box_object list \<Rightarrow> vector3 \<times> nat \<Rightarrow>
   failure + ((vector3 \<times> nat) \<times> bool)" where
  "matgrid_grad_loop g p k [] s = Inr (s, False)"
| "matgrid_grad_loop g p k (ob # rest) s =
     (case material_grid_grad g (to_geom_box_coords g p ob) (gbo_material ob) (Some ob) of
        Inl e \<Rightarrow> Inl e
      | Inr gr \<Rightarrow>
          if k = U_DEFAULT then Inr ((vector3_plus (fst s) gr, snd s), True)
          else
            (let s' = (vector3_plus (fst s) gr, snd s + 1)
             in (case rest of
                   [] \<Rightarrow> Inr (s', False)
                 | nxt # _ \<Rightarrow>
                     if is_material_grid (gbo_material nxt) then matgrid_grad_loop g p k rest s'
                     else Inr (s', True))))"

text \<open>\<^verbatim>\<open>matgrid_grad(p, tp, oi, md)\<close>.  The test of the aggregation kind is its first
  statement.\<close>

definition matgrid_grad ::
  "geom_epsilon \<Rightarrow> vector3 \<Rightarrow> geom_box_object list \<Rightarrow> material_data \<Rightarrow> failure + vector3" where
  "matgrid_grad g p tp md =
     (if material_grid_kinds md = U_MIN \<or> material_grid_kinds md = U_PROD then
        Inl (Abort ''matgrid_grad does not support overlapping grids with U_MIN or U_PROD'')
      else
        (case matgrid_grad_loop g p (material_grid_kinds md) tp
                (\<lparr>vx = 0, vy = 0, vz = 0\<rparr>, 0) of
           Inl e \<Rightarrow> Inl e
         | Inr (s, tp_left) \<Rightarrow>
             (case (if \<not> tp_left \<and> is_material_grid (default_material g) then
                      (case material_grid_grad g (map_lattice_coordinates g p)
                              (default_material g) None of
                         Inl e \<Rightarrow> Inl e
                       | Inr gr \<Rightarrow> Inr (gr, snd s + 1))
                    else Inr s) of
                Inl e \<Rightarrow> Inl e
              | Inr (gradient, n) \<Rightarrow>
                  if material_grid_kinds md = U_MEAN then
                    (if n = 0 then Inl Non_finite
                     else Inr (vector3_scale (1 / real n) gradient))
                  else Inr gradient)))"

text \<open>
  \<^verbatim>\<open>material_grids_addgradient_point\<close>.  \<open>aiw\<close> stands for \<^verbatim>\<open>add_interpolate_weights\<close>, which
  adds one grid's contribution into the gradient buffer \<open>v\<close>: its arguments here are the
  grid coordinates, the scale, the grid whose size and weights are passed, the kind and
  the projected value.  \<open>kind0\<close> is what the local \<^verbatim>\<open>kind\<close> holds when it is never
  assigned (\<^verbatim>\<open>tp\<close> null).
\<close>

fun addgradient_loop ::
  "geom_epsilon \<Rightarrow> (vector3 \<Rightarrow> real \<Rightarrow> material_data \<Rightarrow> material_grid_kind \<Rightarrow> real \<Rightarrow> 'v \<Rightarrow> 'v) \<Rightarrow>
   vector3 \<Rightarrow> real \<Rightarrow> material_data \<Rightarrow> material_grid_kind \<Rightarrow> real \<Rightarrow>
   geom_box_object list \<Rightarrow> 'v \<Rightarrow> 'v \<times> bool" where
  "addgradient_loop g aiw p scalegrad mg kind uval [] v = (v, False)"
| "addgradient_loop g aiw p scalegrad mg kind uval (ob # rest) v =
     (let v' = aiw (to_geom_box_coords g p ob) scalegrad mg kind uval v in
      if kind = U_DEFAULT then (v', True)
      else (case rest of
              [] \<Rightarrow> (v', False)
            | nxt # _ \<Rightarrow>
                if is_material_grid (gbo_material nxt)
                then addgradient_loop g aiw p scalegrad mg kind uval rest v'
                else (v', True)))"

definition material_grids_addgradient_point ::
  "geom_epsilon \<Rightarrow> (vector3 \<Rightarrow> real \<Rightarrow> material_data \<Rightarrow> material_grid_kind \<Rightarrow> real \<Rightarrow> 'v \<Rightarrow> 'v) \<Rightarrow>
   material_grid_kind \<Rightarrow> 'v \<Rightarrow> vector3 \<Rightarrow> real \<Rightarrow> failure + 'v" where
  "material_grids_addgradient_point g aiw kind0 v p scalegrad =
     (let tp = geometry_tree g p in
      if \<not> ((tp \<noteq> [] \<and> which_subclass (gbo_material (hd tp)) = MATERIAL_GRID) \<or>
             (tp = [] \<and> which_subclass (default_material g) = MATERIAL_GRID))
      then Inr v
      else
        (let mg = (if tp \<noteq> [] then gbo_material (hd tp) else default_material g);
             kind = (if tp \<noteq> [] then material_grid_kinds mg else kind0)
         in
         if tp \<noteq> [] \<and> \<not> kind = U_MEAN \<and>
            (material_grid_kinds mg = U_MIN \<or> material_grid_kinds mg = U_PROD)
         then Inl (Abort ''material_grids_addgradient_point does not support overlapping MATERIAL_GRIDs with U_MIN or U_PROD.'')
         else
           (let scalegrad' =
                  (if tp \<noteq> [] \<and> kind = U_MEAN
                   then scalegrad /
                        real (1 + length (takeWhile (\<lambda>ob. is_material_grid (gbo_material ob)) (tl tp)))
                   else scalegrad)
            in
            case (if tp \<noteq> [] then
                    (case matgrid_val g p tp mg of
                       Inl e \<Rightarrow> Inl e
                     | Inr u \<Rightarrow>
                         Inr (addgradient_loop g aiw p scalegrad' mg kind
                                (tanh_projection u (beta mg) (eta mg)) tp v))
                  else Inr (v, False)) of
              Inl e \<Rightarrow> Inl e
            | Inr (v1, tp_left) \<Rightarrow>
                if \<not> tp_left \<and> is_material_grid (default_material g) then
                  (case material_grid_val g (map_lattice_coordinates g p) mg of
                     Inl e \<Rightarrow> Inl e
                   | Inr u \<Rightarrow>
                       Inr (aiw (map_lattice_coordinates g p) scalegrad' mg kind
                              (tanh_projection u (beta mg) (eta mg)) v1))
                else Inr v1)))"

section \<open>Fragment statistics\<close>

text \<open>The counters of \<^verbatim>\<open>fragment_stats\<close>.  They are \<^verbatim>\<open>size_t\<close>; \<^verbatim>\<open>cost\<close> only converts them
  to \<^verbatim>\<open>double\<close>, so no integer arithmetic that could wrap is involved.\<close>

record fragment_stats =
  num_anisotropic_eps_pixels :: nat
  num_anisotropic_mu_pixels :: nat
  num_nonlinear_pixels :: nat
  num_susceptibility_pixels :: nat
  num_nonzero_conductivity_pixels :: nat
  num_1d_pml_pixels :: nat
  num_2d_pml_pixels :: nat
  num_3d_pml_pixels :: nat
  num_dft_pixels :: nat
  num_pixels_in_box :: nat

definition cost :: "fragment_stats \<Rightarrow> real" where
  "cost s =
     real (num_anisotropic_eps_pixels s) * 1.15061674 / 10 ^ 4 +
     real (num_anisotropic_mu_pixels s) * 1.26843801 / 10 ^ 4 +
     real (num_nonlinear_pixels s) * 1.67029547 / 10 ^ 4 +
     real (num_susceptibility_pixels s) * 2.24790864 / 10 ^ 4 +
     real (num_nonzero_conductivity_pixels s) * 4.61260934 / 10 ^ 5 +
     real (num_dft_pixels s) * 1.47283950 / 10 ^ 4 +
     real (num_1d_pml_pixels s) * 9.92955372 / 10 ^ 5 +
     real (num_2d_pml_pixels s) * 1.36901107 / 10 ^ 3 +
     real (num_3d_pml_pixels s) * 6.63939607 / 10 ^ 4 +
     real (num_pixels_in_box s) * 3.46518274 / 10 ^ 4"

text \<open>The value that \<^verbatim>\<open>matgrid_val\<close> reads for a tree entry: the interpolated weight of the
  entry's grid at the point, in the entry's coordinates.\<close>

definition entry_val :: "geom_epsilon \<Rightarrow> vector3 \<Rightarrow> geom_box_object \<Rightarrow> real" where
  "entry_val g p ob = linear_interpolate g (gbo_material ob) (to_geom_box_coords g p ob)"

section \<open>Subpixel averaging: the mixing rule\<close>

text \<open>
  The tail of \<^verbatim>\<open>eff_chi1inv_matrix\<close>, from the construction of \<^verbatim>\<open>Rot\<close> to the rotation
  back, as three functions.
\<close>

definition mat_transpose :: "mat3 \<Rightarrow> mat3" where
  "mat_transpose R =
     \<lparr>r00 = r00 R, r01 = r10 R, r02 = r20 R,
      r10 = r01 R, r11 = r11 R, r12 = r21 R,
      r20 = r02 R, r21 = r12 R, r22 = r22 R\<rparr>"

text \<open>
  \<^verbatim>\<open>Rot\<close>: column 0 is the normal; column 2 is \<open>(n\<^sub>y, -n\<^sub>x, 0)\<close> or \<open>(0, -n\<^sub>z, n\<^sub>y)\<close>, divided by
  its length; column 1 is the cross product of column 2 and column 0.  The length is
  inverted without a test.
\<close>

definition kottke_rotation :: "vector3 \<Rightarrow> failure + mat3" where
  "kottke_rotation normal =
     (let c = (if \<bar>vx normal\<bar> > 1 / 100 \<or> \<bar>vy normal\<bar> > 1 / 100
               then \<lparr>vx = vy normal, vy = - vx normal, vz = 0\<rparr>
               else \<lparr>vx = 0, vy = - vz normal, vz = vy normal\<rparr>);
          s = vx c * vx c + vy c * vy c + vz c * vz c
      in if s = 0 then Inl Non_finite
         else
           (let s' = 1 / sqrt s;
                Rot02 = vx c * s'; Rot12 = vy c * s'; Rot22 = vz c * s';
                Rot00 = vx normal; Rot10 = vy normal; Rot20 = vz normal
            in Inr \<lparr>r00 = Rot00, r01 = Rot12 * Rot20 - Rot22 * Rot10, r02 = Rot02,
                    r10 = Rot10, r11 = Rot22 * Rot00 - Rot02 * Rot20, r12 = Rot12,
                    r20 = Rot20, r21 = Rot02 * Rot10 - Rot12 * Rot00, r22 = Rot22\<rparr>))"

text \<open>
  The six \<^verbatim>\<open>AVG\<close> expressions and the six entries of \<^verbatim>\<open>meps\<close> computed from \<^verbatim>\<open>delta\<close>,
  on the rotated tensors.  The divisors are \<^verbatim>\<open>eps1.m00\<close>, \<^verbatim>\<open>eps2.m00\<close> and \<^verbatim>\<open>delta.m00\<close>.
\<close>

definition kottke_mixing ::
  "real \<Rightarrow> real symm_matrix \<Rightarrow> real symm_matrix \<Rightarrow> failure + real symm_matrix" where
  "kottke_mixing fill eps1 eps2 =
     (if m00 eps1 = 0 \<or> m00 eps2 = 0 then Inl Non_finite
      else
        (let delta =
               \<lparr>m00 = fill * (- 1 / m00 eps1) + (1 - fill) * (- 1 / m00 eps2),
                m01 = fill * (m01 eps1 / m00 eps1) + (1 - fill) * (m01 eps2 / m00 eps2),
                m02 = fill * (m02 eps1 / m00 eps1) + (1 - fill) * (m02 eps2 / m00 eps2),
                m11 = fill * (m11 eps1 - m01 eps1 * m01 eps1 / m00 eps1) +
                      (1 - fill) * (m11 eps2 - m01 eps2 * m01 eps2 / m00 eps2),
                m12 = fill * (m12 eps1 - m02 eps1 * m01 eps1 / m00 eps1) +
                      (1 - fill) * (m12 eps2 - m02 eps2 * m01 eps2 / m00 eps2),
                m22 = fill * (m22 eps1 - m02 eps1 * m02 eps1 / m00 eps1) +
                      (1 - fill) * (m22 eps2 - m02 eps2 * m02 eps2 / m00 eps2)\<rparr>
         in if m00 delta = 0 then Inl Non_finite
            else Inr \<lparr>m00 = - 1 / m00 delta,
                      m01 = - m01 delta / m00 delta,
                      m02 = - m02 delta / m00 delta,
                      m11 = m11 delta - m01 delta * m01 delta / m00 delta,
                      m12 = m12 delta - (m02 delta * m01 delta) / m00 delta,
                      m22 = m22 delta - m02 delta * m02 delta / m00 delta\<rparr>))"

text \<open>Rotation into the frame of the normal, mixing, rotation back with the transposed
  matrix: the tensor \<^verbatim>\<open>meps\<close> that is inverted into the result.\<close>

definition kottke_average ::
  "real \<Rightarrow> vector3 \<Rightarrow> real symm_matrix \<Rightarrow> real symm_matrix \<Rightarrow> failure + real symm_matrix" where
  "kottke_average fill normal eps1 eps2 =
     (case kottke_rotation normal of
        Inl e \<Rightarrow> Inl e
      | Inr Rot \<Rightarrow>
          (case kottke_mixing fill (sym_matrix_rotate eps1 Rot) (sym_matrix_rotate eps2 Rot) of
             Inl e \<Rightarrow> Inl e
           | Inr meps \<Rightarrow> Inr (sym_matrix_rotate meps (mat_transpose Rot))))"

text \<open>The tensor of an isotropic material of permittivity \<open>e\<close>.\<close>

definition isotropic :: "real \<Rightarrow> real symm_matrix" where
  "isotropic e = \<lparr>m00 = e, m01 = 0, m02 = 0, m11 = e, m12 = 0, m22 = e\<rparr>"

text \<open>The component of a tensor along a direction: \<open>n\<^sup>T V n\<close>.  It is the entry \<^verbatim>\<open>m00\<close> of the
  tensor rotated into a frame whose first axis is \<open>n\<close>.\<close>

definition normal_component :: "vector3 \<Rightarrow> real symm_matrix \<Rightarrow> real" where
  "normal_component n V =
     vx n * (m00 V * vx n + m01 V * vy n + m02 V * vz n) +
     vy n * (m01 V * vx n + m11 V * vy n + m12 V * vz n) +
     vz n * (m02 V * vx n + m12 V * vy n + m22 V * vz n)"

definition mat_identity :: mat3 where
  "mat_identity = \<lparr>r00 = 1, r01 = 0, r02 = 0, r10 = 0, r11 = 1, r12 = 0, r20 = 0, r21 = 0, r22 = 1\<rparr>"

section \<open>Evaluating a material at a point\<close>

definition medium_tensor :: "vector3 \<Rightarrow> cvector3 \<Rightarrow> real symm_matrix" where
  "medium_tensor d od =
     \<lparr>m00 = vx d, m01 = Re (cx od), m02 = Re (cy od), m11 = vy d, m12 = Re (cz od), m22 = vz d\<rparr>"

text \<open>\<^verbatim>\<open>material_epsmu\<close>: the tensor and its inverse.  The enumeration has the five values of
  \<open>material_subclass\<close>, so the \<^verbatim>\<open>default\<close> branches are not reached.\<close>

definition material_epsmu ::
  "geom_epsilon \<Rightarrow> field_type \<Rightarrow> material_data \<Rightarrow>
   failure + (real symm_matrix \<times> ext symm_matrix)" where
  "material_epsmu g ft md =
     (case which_subclass md of
        PERFECT_METAL \<Rightarrow>
          (case ft of
             E_stuff \<Rightarrow>
               Inr (\<lparr>m00 = - infinity g, m01 = 0, m02 = 0,
                     m11 = - infinity g, m12 = 0, m22 = - infinity g\<rparr>,
                    \<lparr>m00 = Fin 0, m01 = Fin 0, m02 = Fin 0,
                     m11 = Fin 0, m12 = Fin 0, m22 = Fin 0\<rparr>)
           | H_stuff \<Rightarrow>
               Inr (\<lparr>m00 = 1, m01 = 0, m02 = 0, m11 = 1, m12 = 0, m22 = 1\<rparr>,
                    \<lparr>m00 = Fin 1, m01 = Fin 0, m02 = Fin 0,
                     m11 = Fin 1, m12 = Fin 0, m22 = Fin 1\<rparr>))
      | _ \<Rightarrow>
          (let epsmu = (case ft of
                          E_stuff \<Rightarrow> medium_tensor (epsilon_diag (medium md))
                                       (epsilon_offdiag (medium md))
                        | H_stuff \<Rightarrow> medium_tensor (mu_diag (medium md)) (mu_offdiag (medium md)))
           in case sym_matrix_invert epsmu of
                Inl e \<Rightarrow> Inl e
              | Inr epsmu_inv \<Rightarrow> Inr (epsmu, epsmu_inv)))"

definition interp_vector3 :: "vector3 \<Rightarrow> vector3 \<Rightarrow> real \<Rightarrow> vector3" where
  "interp_vector3 a b u =
     \<lparr>vx = vx a + u * (vx b - vx a), vy = vy a + u * (vy b - vy a),
      vz = vz a + u * (vz b - vz a)\<rparr>"

definition interp_complex :: "complex \<Rightarrow> complex \<Rightarrow> real \<Rightarrow> complex" where
  "interp_complex a b u = Complex (Re a + u * (Re b - Re a)) (Im a + u * (Im b - Im a))"

text \<open>\<^verbatim>\<open>cinterp_tensors\<close> and \<^verbatim>\<open>interp_tensors\<close>; the pair is (\<^verbatim>\<open>diag_out\<close>, \<^verbatim>\<open>offdiag_out\<close>).\<close>

definition cinterp_tensors ::
  "vector3 \<Rightarrow> cvector3 \<Rightarrow> vector3 \<Rightarrow> cvector3 \<Rightarrow> real \<Rightarrow> vector3 \<times> cvector3" where
  "cinterp_tensors diag_in_1 offdiag_in_1 diag_in_2 offdiag_in_2 u =
     (interp_vector3 diag_in_1 diag_in_2 u,
      \<lparr>cx = interp_complex (cx offdiag_in_1) (cx offdiag_in_2) u,
       cy = interp_complex (cy offdiag_in_1) (cy offdiag_in_2) u,
       cz = interp_complex (cz offdiag_in_1) (cz offdiag_in_2) u\<rparr>)"

definition interp_tensors ::
  "vector3 \<Rightarrow> vector3 \<Rightarrow> vector3 \<Rightarrow> vector3 \<Rightarrow> real \<Rightarrow> vector3 \<times> vector3" where
  "interp_tensors diag_in_1 offdiag_in_1 diag_in_2 offdiag_in_2 u =
     (interp_vector3 diag_in_1 diag_in_2 u, interp_vector3 offdiag_in_1 offdiag_in_2 u)"

text \<open>One step of the two loops of \<^verbatim>\<open>epsilon_material_grid\<close> over the susceptibilities: the
  target keeps all its fields but the two \<^verbatim>\<open>sigma\<close> vectors.\<close>

definition interp_sigma :: "real \<Rightarrow> susceptibility \<Rightarrow> susceptibility \<Rightarrow> susceptibility" where
  "interp_sigma w src tgt =
     (let zero_vec = \<lparr>vx = 0, vy = 0, vz = 0\<rparr>;
          r = interp_tensors zero_vec zero_vec (sigma_diag src) (sigma_offdiag src) w
      in tgt\<lparr>sigma_diag := fst r, sigma_offdiag := snd r\<rparr>)"

text \<open>
  \<^verbatim>\<open>epsilon_material_grid\<close>.  The loops write the entries \<open>0 .. n1 + n2 - 1\<close> of the
  susceptibility list of \<^verbatim>\<open>md->medium\<close>; a shorter list is an access outside the vector.
\<close>

definition epsilon_material_grid :: "material_data \<Rightarrow> real \<Rightarrow> failure + material_data" where
  "epsilon_material_grid md u =
     (if weights md = None then Inl (Abort ''material params were not initialized!'')
      else
        (let mm = medium md; m1 = medium_1 md; m2 = medium_2 md;
             n1 = length (E_susceptibilities m1); n2 = length (E_susceptibilities m2)
         in if length (E_susceptibilities mm) < n1 + n2 then Inl Undefined
            else
              (let eps = cinterp_tensors (epsilon_diag m1) (epsilon_offdiag m1)
                           (epsilon_diag m2) (epsilon_offdiag m2) u;
                   sus = map (\<lambda>(src, tgt). interp_sigma (1 - u) src tgt)
                           (zip (E_susceptibilities m1) (take n1 (E_susceptibilities mm))) @
                         map (\<lambda>(src, tgt). interp_sigma u src tgt)
                           (zip (E_susceptibilities m2) (take n2 (drop n1 (E_susceptibilities mm)))) @
                         drop (n1 + n2) (E_susceptibilities mm);
                   zero_vec = \<lparr>vx = 0, vy = 0, vz = 0\<rparr>;
                   cond = fst (interp_tensors (D_conductivity_diag m1) zero_vec
                                 (D_conductivity_diag m2) zero_vec u);
                   fake_damping = u * (1 - u) * damping md
               in Inr (md\<lparr>medium :=
                            mm\<lparr>epsilon_diag := fst eps, epsilon_offdiag := snd eps,
                               E_susceptibilities := sus,
                               D_conductivity_diag :=
                                 \<lparr>vx = vx cond + fake_damping, vy = vy cond + fake_damping,
                                  vz = vz cond + fake_damping\<rparr>\<rparr>,
                          trivial := (if n1 + n2 > 0 \<or> damping md \<noteq> 0 then False
                                      else trivial md)\<rparr>))))"

text \<open>
  \<^verbatim>\<open>epsilon_file_material\<close>, called for a file material with data.  Its first statement,
  \<^verbatim>\<open>set_default_material(md)\<close>, does nothing when \<^verbatim>\<open>md\<close> is the default material; for any other
  material it replaces the global default material, a change of state that this
  embedding does not follow: \<open>Default_replaced\<close>.
\<close>

definition epsilon_file_material ::
  "geom_epsilon \<Rightarrow> material_data \<Rightarrow> vector3 \<Rightarrow> failure + material_data" where
  "epsilon_file_material g md p =
     (if addr md \<noteq> addr (default_material g) then Inl Default_replaced
      else if which_subclass md \<noteq> MATERIAL_FILE then
        Inl (Abort ''epsilon-input-file only works with a type=file default-material'')
      else if epsilon_data md = None then Inr md
      else
        (let e = file_epsilon g md (map_lattice_coordinates g p);
             od = epsilon_offdiag (medium md)
         in Inr (md\<lparr>medium := (medium md)
                   \<lparr>epsilon_diag := \<lparr>vx = e, vy = e, vz = e\<rparr>,
                    epsilon_offdiag := \<lparr>cx = Complex 0 (Im (cx od)), cy = Complex 0 (Im (cy od)),
                                         cz = Complex 0 (Im (cz od))\<rparr>\<rparr>\<rparr>)))"

text \<open>
  Modelled from the spec: \<^verbatim>\<open>medium_struct::check_offdiag_im_zero_or_abort\<close> is declared
  outside the source file.  The specification: a medium's off-diagonal tensor entries
  must have zero imaginary part, and a medium that has one is rejected with a fatal
  error (the build without Hermitian mode).
\<close>

definition offdiag_im_zero :: "medium_struct \<Rightarrow> bool" where
  "offdiag_im_zero m =
     (Im (cx (epsilon_offdiag m)) = 0 \<and> Im (cy (epsilon_offdiag m)) = 0 \<and>
      Im (cz (epsilon_offdiag m)) = 0 \<and> Im (cx (mu_offdiag m)) = 0 \<and>
      Im (cy (mu_offdiag m)) = 0 \<and> Im (cz (mu_offdiag m)) = 0)"

text \<open>
  \<^verbatim>\<open>eval_material_pt\<close>.  The source fills in the \<^verbatim>\<open>medium\<close> field of the material in place
  (and, for a file material without data, redirects the pointer to the default
  material); the function returns the material as it is afterwards.
\<close>

definition eval_material_pt ::
  "geom_epsilon \<Rightarrow> material_data \<Rightarrow> vector3 \<Rightarrow> failure + material_data" where
  "eval_material_pt g material p =
     (case which_subclass material of
        MATERIAL_GRID \<Rightarrow>
          (case matgrid_val g p (restricted_tree g p) material of
             Inl e \<Rightarrow> Inl e
           | Inr v \<Rightarrow>
               epsilon_material_grid material
                 (tanh_projection (v + u_p g) (beta material) (eta material)))
      | MATERIAL_FILE \<Rightarrow>
          if epsilon_data material \<noteq> None then epsilon_file_material g material p
          else Inr (default_material g)
      | MATERIAL_USER \<Rightarrow>
          (let m = user_material g material p in
           if offdiag_im_zero m then Inr (material\<lparr>medium := m\<rparr>)
           else Inl (Abort ''non-zero imaginary part of an off-diagonal tensor entry''))
      | MEDIUM \<Rightarrow> Inr material
      | PERFECT_METAL \<Rightarrow> Inr material)"

definition get_material_pt :: "geom_epsilon \<Rightarrow> vector3 \<Rightarrow> failure + material_data" where
  "get_material_pt g r = eval_material_pt g (material_of_point g r) r"

text \<open>\<^verbatim>\<open>geom_epsilon::chi1p1\<close>: a third of the trace of the tensor at a point.\<close>

definition chi1p1 :: "geom_epsilon \<Rightarrow> field_type \<Rightarrow> vector3 \<Rightarrow> failure + real" where
  "chi1p1 g ft r =
     (case get_material_pt g r of
        Inl e \<Rightarrow> Inl e
      | Inr material \<Rightarrow>
          (case material_epsmu g ft material of
             Inl e \<Rightarrow> Inl e
           | Inr (c, c_inv) \<Rightarrow> Inr ((m00 c + m11 c + m22 c) / 3)))"

section \<open>Subpixel averaging: the whole routine\<close>

text \<open>
  \<^verbatim>\<open>get_material_grid_fill\<close>; the result is the returned fill and the value stored in
  \<^verbatim>\<open>*mg_averaging\<close>.  The distance \<open>d\<close> is a product with \<^verbatim>\<open>1.0 / abs(gradient)\<close>, which is
  infinite for a zero gradient, so \<open>d\<close> is an \<open>ext\<close>: an infinite \<open>d\<close> exceeds every radius,
  and a NaN compares false and is carried into the fill.  \<^verbatim>\<open>abs\<close> is read as the absolute
  value of a \<^verbatim>\<open>double\<close>.
\<close>

definition get_material_grid_fill ::
  "ndim \<Rightarrow> ext \<Rightarrow> real \<Rightarrow> real \<Rightarrow> real \<Rightarrow> failure + (real \<times> bool)" where
  "get_material_grid_fill dm d r u \<eta> =
     (case d of
        NaN \<Rightarrow> Inl Non_finite
      | Inf \<Rightarrow> Inr (- 1, False)
      | Fin d \<Rightarrow>
          if \<bar>d\<bar> > \<bar>r\<bar> then Inr (- 1, False)
          else if r = 0 then Inl Non_finite
          else
            (let rel_fill =
                   (case dm of
                      D1 \<Rightarrow> (r - d) / (2 * r)
                    | D2 \<Rightarrow> (1 / (r * r * pi)) * (r * r * arccos (d / r) - d * sqrt (r * r - d * d))
                    | Dcyl \<Rightarrow> (1 / (r * r * pi)) * (r * r * arccos (d / r) - d * sqrt (r * r - d * d))
                    | D3 \<Rightarrow> (((r - d) * (r - d)) / (4 * pi * r * r * r)) * (2 * r + d))
             in Inr (if u \<le> \<eta> then rel_fill else 1 - rel_fill, True)))"

datatype chi1inv_result = Fallback | Matrix "ext symm_matrix"

text \<open>
  What one call of \<^verbatim>\<open>eff_chi1inv_matrix\<close> or \<^verbatim>\<open>fallback_chi1inv_row\<close> reads of its arguments
  and of the library:
  \<^item> \<open>px_ft\<close> is \<^verbatim>\<open>meep::type(c)\<close> and \<open>px_rownum\<close> is \<^verbatim>\<open>component_direction(c) % 3\<close>;
  \<^item> \<open>px_center\<close>, \<open>px_min_corner\<close>, \<open>px_max_corner\<close> and \<open>px_diameter\<close> are those of the
    volume \<^verbatim>\<open>v\<close>;
  \<^item> the \<open>front_\<close> fields are what \<^verbatim>\<open>get_front_object\<close> returns and stores through its
    reference arguments (\<open>front_mat\<close> and the others hold whatever the variables hold when it
    returns false without storing);
  \<^item> \<open>surface_normal\<close> is \<^verbatim>\<open>unit_vector3(normal_to_fixed_object(...))\<close> and \<open>box_overlap\<close> is
    \<^verbatim>\<open>box_overlap_with_object(...)\<close> for the front object;
  \<^item> \<open>normal_vector\<close> is \<^verbatim>\<open>normal_vector(meep::type(c), v)\<close>, \<open>cubature xmin xmax n\<close> is
    libctl's \<^verbatim>\<open>adaptive_integration\<close> over that box with the tolerance and budget of the
    call, and \<open>center_eps\<close> is \<^verbatim>\<open>eps(v.center())\<close>, a method inherited from
    \<^verbatim>\<open>meep::material_function\<close>.
\<close>

datatype integrator = Done real | Ask "real list" "real \<Rightarrow> integrator"

record pixel =
  px_maxeval :: int
  px_ft :: field_type
  px_rownum :: nat
  px_center :: vector3
  px_min_corner :: vector3
  px_max_corner :: vector3
  px_diameter :: real
  front_found :: bool
  front_mat :: material_data
  front_mat_behind :: material_data
  front_p_mat :: vector3
  front_p_mat_behind :: vector3
  surface_normal :: vector3
  box_overlap :: real
  normal_vector :: vector3
  cubature :: "real list \<Rightarrow> real list \<Rightarrow> nat \<Rightarrow> integrator"
  center_eps :: "failure + real"

text \<open>The label \<^verbatim>\<open>trivial\<close>: the tensor of one material.\<close>

definition eff_trivial :: "geom_epsilon \<Rightarrow> pixel \<Rightarrow> material_data \<Rightarrow> failure + chi1inv_result" where
  "eff_trivial g px mat =
     (case material_epsmu g (px_ft px) mat of
        Inl e \<Rightarrow> Inl e
      | Inr (meps, chi1inv_matrix) \<Rightarrow> Inr (Matrix chi1inv_matrix))"

text \<open>The label \<^verbatim>\<open>noavg\<close>: the material at the center of the volume, then \<^verbatim>\<open>trivial\<close>.\<close>

definition eff_noavg :: "geom_epsilon \<Rightarrow> pixel \<Rightarrow> failure + chi1inv_result" where
  "eff_noavg g px =
     (case get_material_pt g (px_center px) of
        Inl e \<Rightarrow> Inl e
      | Inr mat \<Rightarrow> eff_trivial g px mat)"

definition vec_abs :: "vector3 \<Rightarrow> real" where
  "vec_abs v = sqrt (vx v * vx v + vy v * vy v + vz v * vz v)"

definition ext_scale :: "real \<Rightarrow> ext \<Rightarrow> ext" where
  "ext_scale a e =
     (case e of Fin b \<Rightarrow> Fin (a * b) | Inf \<Rightarrow> (if a = 0 then NaN else Inf) | NaN \<Rightarrow> NaN)"

text \<open>
  The block \<^verbatim>\<open>if (is_material_grid(mat)) { ... }\<close>: the normal, the fill and \<^verbatim>\<open>mg_averaging\<close>.
  For a zero gradient \<^verbatim>\<open>nabsinv\<close> is infinite and every component of the normal is the
  product \<open>0 * \<infinity>\<close>: the normal is \<open>None\<close> then.
\<close>

definition grid_interface ::
  "geom_epsilon \<Rightarrow> pixel \<Rightarrow> material_data \<Rightarrow> failure + (vector3 option \<times> real \<times> bool)" where
  "grid_interface g px mat =
     (let p = px_center px; tp = restricted_tree g p in
      case matgrid_grad g p tp mat of
        Inl e \<Rightarrow> Inl e
      | Inr normal_vec \<Rightarrow>
          (let nabsinv = fdiv 1 (vec_abs normal_vec);
               normal = (case nabsinv of
                           Fin s \<Rightarrow> Some (vector3_scale s normal_vec)
                         | _ \<Rightarrow> None)
           in case matgrid_val g p tp mat of
                Inl e \<Rightarrow> Inl e
              | Inr v \<Rightarrow>
                  (let uval = v + u_p g;
                       d = ext_scale (eta mat - uval) nabsinv;
                       r = px_diameter px / 2
                   in case get_material_grid_fill (dim g) d r uval (eta mat) of
                        Inl e \<Rightarrow> Inl e
                      | Inr (fill, mg_averaging) \<Rightarrow> Inr (normal, fill, mg_averaging))))"

text \<open>From the first \<^verbatim>\<open>material_epsmu\<close> of the mixing to the end of the routine; the normal
  is \<open>None\<close> when its components are not numbers.\<close>

definition eff_kottke ::
  "geom_epsilon \<Rightarrow> pixel \<Rightarrow> material_data \<Rightarrow> material_data \<Rightarrow> vector3 option \<Rightarrow> real \<Rightarrow>
   failure + chi1inv_result" where
  "eff_kottke g px mat mat_behind normal fill =
     (case material_epsmu g (px_ft px) mat of
        Inl e \<Rightarrow> Inl e
      | Inr (eps1, inv1) \<Rightarrow>
          (case material_epsmu g (px_ft px) mat_behind of
             Inl e \<Rightarrow> Inl e
           | Inr (eps2, epsinv2) \<Rightarrow>
               (case (case normal of None \<Rightarrow> Inl Non_finite
                      | Some n \<Rightarrow> kottke_average fill n eps1 eps2) of
                  Inl e \<Rightarrow> Inl e
                | Inr meps \<Rightarrow>
                    if debug g \<and> \<not> sym_matrix_positive_definite meps
                    then Inl (Abort ''negative mean epsilon from Kottke algorithm'')
                    else (case sym_matrix_invert meps of
                            Inl e \<Rightarrow> Inl e
                          | Inr chi1inv_matrix \<Rightarrow> Inr (Matrix chi1inv_matrix)))))"

text \<open>
  From the test of \<^verbatim>\<open>is_metal\<close> on: \<open>gi\<close> is what the grid block has stored in \<^verbatim>\<open>normal\<close>,
  \<^verbatim>\<open>fill\<close> and \<^verbatim>\<open>mg_averaging\<close>, or \<open>None\<close> when that block was skipped and \<^verbatim>\<open>normal\<close> and
  \<^verbatim>\<open>fill\<close> are still unassigned.
\<close>

definition eff_average ::
  "geom_epsilon \<Rightarrow> pixel \<Rightarrow> material_data \<Rightarrow> material_data \<Rightarrow>
   (vector3 option \<times> real \<times> bool) option \<Rightarrow> failure + chi1inv_result" where
  "eff_average g px mat mat_behind gi =
     (if is_metal (px_ft px) mat \<or> is_metal (px_ft px) mat_behind then eff_noavg g px
      else if \<not> is_material_grid mat then
        (if vx (surface_normal px) = 0 \<and> vy (surface_normal px) = 0 \<and> vz (surface_normal px) = 0
         then eff_noavg g px
         else eff_kottke g px mat mat_behind (Some (surface_normal px)) (box_overlap px))
      else
        (case gi of
           None \<Rightarrow> Inl Undefined
         | Some (normal, fill, mg_averaging) \<Rightarrow> eff_kottke g px mat mat_behind normal fill))"

text \<open>\<^verbatim>\<open>geom_epsilon::eff_chi1inv_matrix\<close>.\<close>

definition eff_chi1inv_matrix :: "geom_epsilon \<Rightarrow> pixel \<Rightarrow> failure + chi1inv_result" where
  "eff_chi1inv_matrix g px =
     (let mat = front_mat px; mat_behind = front_mat_behind px in
      if px_maxeval px = 0 \<or> (\<not> front_found px \<and> \<not> is_material_grid mat) then eff_noavg g px
      else if (is_variable mat False \<and> do_averaging mat) \<or>
              (is_variable mat_behind False \<and> do_averaging mat_behind) then Inr Fallback
      else
        (case (if is_material_grid mat
               then (case grid_interface g px mat of Inl e \<Rightarrow> Inl e | Inr i \<Rightarrow> Inr (Some i))
               else Inr None) of
           Inl e \<Rightarrow> Inl e
         | Inr gi \<Rightarrow>
             (let mg_averaging = (case gi of None \<Rightarrow> False | Some (n, f, b) \<Rightarrow> b) in
              if material_type_equal mat mat_behind then
                (if is_variable mat True \<and> \<not> mg_averaging then
                   (case eval_material_pt g mat (px_center px) of
                      Inl e \<Rightarrow> Inl e
                    | Inr mat' \<Rightarrow> eff_trivial g px mat')
                 else if is_material_grid mat \<and> mg_averaging then
                   eff_average g px mat mat_behind gi
                 else eff_trivial g px mat)
              else
                (case eval_material_pt g mat (front_p_mat px) of
                   Inl e \<Rightarrow> Inl e
                 | Inr mat' \<Rightarrow>
                     (case eval_material_pt g mat_behind (front_p_mat_behind px) of
                        Inl e \<Rightarrow> Inl e
                      | Inr mat_behind' \<Rightarrow>
                          if material_type_equal mat' mat_behind' then eff_trivial g px mat'
                          else eff_average g px mat' mat_behind' gi)))))"

section \<open>The fallback quadrature averager\<close>

text \<open>
  \<^verbatim>\<open>vector3_to_vec\<close>, with a \<^verbatim>\<open>meep::vec\<close> written as the \<open>vector3\<close> that \<^verbatim>\<open>vec_to_vector3\<close>
  gives for it: the coordinates that the dimensionality does not have are dropped.
\<close>

definition vector3_to_vec :: "ndim \<Rightarrow> vector3 \<Rightarrow> vector3" where
  "vector3_to_vec dm v3 =
     (case dm of
        D1 \<Rightarrow> \<lparr>vx = 0, vy = 0, vz = vz v3\<rparr>
      | D2 \<Rightarrow> \<lparr>vx = vx v3, vy = vy v3, vz = 0\<rparr>
      | D3 \<Rightarrow> \<lparr>vx = vx v3, vy = vy v3, vz = vz v3\<rparr>
      | Dcyl \<Rightarrow> \<lparr>vx = vx v3, vy = 0, vz = vz v3\<rparr>)"


text \<open>The part shared by \<^verbatim>\<open>eps_func\<close> and \<^verbatim>\<open>inveps_func\<close>: the trace \<^verbatim>\<open>ep\<close> at the point and the
  Jacobian factor \<^verbatim>\<open>s\<close>.\<close>

definition eps_point ::
  "geom_epsilon \<Rightarrow> field_type \<Rightarrow> nat \<Rightarrow> real list \<Rightarrow> failure + (real \<times> real)" where
  "eps_point g func_ft n x =
     (if n = 0 \<or> length x < n then Inl Undefined
      else
        (let p0 = \<lparr>vx = x ! 0, vy = (if n > 1 then x ! 1 else 0), vz = (if n > 2 then x ! 2 else 0)\<rparr>;
             p = (if dim g = Dcyl then \<lparr>vx = vx p0, vy = vz p0, vz = vy p0\<rparr> else p0);
             s = (if dim g = Dcyl then vx p0 else 1)
         in case chi1p1 g func_ft (vector3_to_vec (dim g) p) of
              Inl e \<Rightarrow> Inl e
            | Inr ep \<Rightarrow> Inr (ep, s)))"

text \<open>\<^verbatim>\<open>eps_func\<close> and \<^verbatim>\<open>inveps_func\<close>; the state is \<^verbatim>\<open>eps_ever_negative\<close>.\<close>

definition eps_func ::
  "geom_epsilon \<Rightarrow> field_type \<Rightarrow> nat \<Rightarrow> real list \<Rightarrow> bool \<Rightarrow> (failure + real) \<times> bool" where
  "eps_func g func_ft n x eps_ever_negative =
     (case eps_point g func_ft n x of
        Inl e \<Rightarrow> (Inl e, eps_ever_negative)
      | Inr (ep, s) \<Rightarrow> (Inr (ep * s), (if ep < 0 then True else eps_ever_negative)))"

definition inveps_func ::
  "geom_epsilon \<Rightarrow> field_type \<Rightarrow> nat \<Rightarrow> real list \<Rightarrow> bool \<Rightarrow> (failure + real) \<times> bool" where
  "inveps_func g func_ft n x eps_ever_negative =
     (case eps_point g func_ft n x of
        Inl e \<Rightarrow> (Inl e, eps_ever_negative)
      | Inr (ep, s) \<Rightarrow>
          if ep = 0 then (Inl Non_finite, eps_ever_negative)
          else (Inr (s / ep), (if ep < 0 then True else eps_ever_negative)))"
















section \<open>Sample configurations\<close>

text \<open>Concrete values on which the theorems below are instantiated.\<close>

definition zero3 :: vector3 where
  "zero3 = \<lparr>vx = 0, vy = 0, vz = 0\<rparr>"

definition czero3 :: cvector3 where
  "czero3 = \<lparr>cx = 0, cy = 0, cz = 0\<rparr>"

text \<open>An isotropic medium of permittivity \<open>e\<close> and permeability 1, everything else zero.\<close>

definition iso_medium :: "real \<Rightarrow> medium_struct" where
  "iso_medium e =
     \<lparr>epsilon_diag = \<lparr>vx = e, vy = e, vz = e\<rparr>, epsilon_offdiag = czero3,
      mu_diag = \<lparr>vx = 1, vy = 1, vz = 1\<rparr>, mu_offdiag = czero3,
      E_susceptibilities = [], H_susceptibilities = [],
      E_chi2_diag = zero3, E_chi3_diag = zero3, H_chi2_diag = zero3, H_chi3_diag = zero3,
      D_conductivity_diag = zero3, B_conductivity_diag = zero3\<rparr>"

definition sample_material :: "nat \<Rightarrow> material_subclass \<Rightarrow> material_grid_kind \<Rightarrow> real \<Rightarrow> material_data" where
  "sample_material a k kinds e =
     \<lparr>addr = a, which_subclass = k, medium = iso_medium e,
      medium_1 = iso_medium 1, medium_2 = iso_medium 12,
      user_func = 0, user_data = 0, do_averaging = False,
      beta = 0, eta = 1 / 2, damping = 0, material_grid_kinds = kinds,
      weights = Some [], epsilon_data = None, trivial = True\<rparr>"

definition medium_entry :: "nat \<Rightarrow> real \<Rightarrow> geom_box_object" where
  "medium_entry a e = \<lparr>gbo_id = a, gbo_material = sample_material a MEDIUM U_DEFAULT e\<rparr>"

text \<open>
  A two-dimensional pixel, the box from \<open>(0, 0)\<close> to \<open>(0.3, 0.4)\<close> with diameter \<open>0.5\<close>, for
  the row of the first direction; the integrator samples two points of the box and returns
  the mean of the two values times the area.  The materials in front and behind, the
  points where they were found and the surface normal are given.
\<close>

definition sample_pixel ::
  "material_data \<Rightarrow> material_data \<Rightarrow> vector3 \<Rightarrow> vector3 \<Rightarrow> vector3 \<Rightarrow> pixel" where
  "sample_pixel mat mat_behind p_mat p_mat_behind nrm =
     \<lparr>px_maxeval = 100, px_ft = E_stuff, px_rownum = 0,
      px_center = \<lparr>vx = 3 / 20, vy = 1 / 5, vz = 0\<rparr>,
      px_min_corner = zero3, px_max_corner = \<lparr>vx = 3 / 10, vy = 2 / 5, vz = 0\<rparr>,
      px_diameter = 1 / 2, front_found = True,
      front_mat = mat, front_mat_behind = mat_behind,
      front_p_mat = p_mat, front_p_mat_behind = p_mat_behind,
      surface_normal = nrm, box_overlap = 1 / 2,
      normal_vector = \<lparr>vx = 1, vy = 0, vz = 0\<rparr>,
      cubature = (\<lambda>xmin xmax n.
         Ask [3 / 40, 1 / 5, 0] (\<lambda>ya. Ask [9 / 40, 1 / 5, 0] (\<lambda>yb. Done ((ya + yb) / 2 * (3 / 25))))),
      center_eps = Inr 1\<rparr>"

definition sample_entry :: "nat \<Rightarrow> material_grid_kind \<Rightarrow> geom_box_object" where
  "sample_entry a kinds = \<lparr>gbo_id = a, gbo_material = sample_material a MATERIAL_GRID kinds 1\<rparr>"

text \<open>A two-dimensional geometry with a vacuum default material and the given tree, in
  which the grid at address 1 (and 4) interpolates to 0.2, the one at address 2 to 0.5 and
  the one at address 3 to 0.8, with the gradient \<open>(0.25, 0, 0)\<close> for the grid at address 4
  and \<open>(1, 0, 0)\<close> for the others.\<close>

definition sample_geom :: "(vector3 \<Rightarrow> geom_box_object list) \<Rightarrow> geom_epsilon" where
  "sample_geom tree =
     \<lparr>dim = D2, default_material = sample_material 0 MEDIUM U_DEFAULT 1,
      geometry_lattice_size = \<lparr>vx = 1, vy = 1, vz = 1\<rparr>, geometry_center = zero3,
      geometry_tree = tree, restricted_tree = tree,
      to_geom_box_coords = (\<lambda>p ob. p),
      linear_interpolate = (\<lambda>md p. if addr md = 2 then 1 / 2 else if addr md = 3 then 4 / 5 else 1 / 5),
      grid_gradient = (\<lambda>p md ob. if addr md = 4 then \<lparr>vx = 1 / 4, vy = 0, vz = 0\<rparr>
                                  else \<lparr>vx = 1, vy = 0, vz = 0\<rparr>),
      material_of_point =
        (\<lambda>p. case tree p of [] \<Rightarrow> sample_material 0 MEDIUM U_DEFAULT 1 | ob # rest \<Rightarrow> gbo_material ob),
      user_material = (\<lambda>md p. iso_medium 1),
      file_epsilon = (\<lambda>md p. 1),
      u_p = 0, infinity = 10 ^ 20, debug = False\<rparr>"

text \<open>Four trees: a medium of permittivity \<open>- 2\<close> left of \<open>x = 0.1\<close>; a medium of
  permittivity 12 right of \<open>x = 0.2\<close>; the grid at address 4 right of \<open>x = 0.1\<close>; a medium
  of permittivity 12 right of \<open>x = 0.2\<close> and one of permittivity 0 elsewhere.\<close>

definition negative_strip :: "vector3 \<Rightarrow> geom_box_object list" where
  "negative_strip p = (if vx p < 1 / 10 then [medium_entry 2 (- 2)] else [])"

definition dielectric_block :: "vector3 \<Rightarrow> geom_box_object list" where
  "dielectric_block p = (if vx p > 1 / 5 then [medium_entry 1 12] else [])"

definition grid_block :: "vector3 \<Rightarrow> geom_box_object list" where
  "grid_block p = (if vx p > 1 / 10 then [sample_entry 4 U_DEFAULT] else [])"

definition zero_backing :: "vector3 \<Rightarrow> geom_box_object list" where
  "zero_backing p = (if vx p > 1 / 5 then [medium_entry 1 12] else [medium_entry 5 0])"

section \<open>Properties\<close>

subsection \<open>Tensor inversion\<close>

lemma sym_matrix_invert_diag:
  "offdiag_zero V \<Longrightarrow>
   sym_matrix_invert V =
     Inr \<lparr>m00 = fdiv 1 (m00 V), m01 = Fin 0, m02 = Fin 0,
          m11 = fdiv 1 (m11 V), m12 = Fin 0, m22 = fdiv 1 (m22 V)\<rparr>"
  by (simp add: sym_matrix_invert_def)

lemma sym_matrix_invert_isl:
  "isl (sym_matrix_invert V) = (\<not> offdiag_zero V \<and> sym_det V = 0)"
  by (simp add: sym_matrix_invert_def Let_def)

text \<open>
  Claim C10.  \<^verbatim>\<open>sym_matrix_invert\<close> fails exactly when some off-diagonal entry is nonzero
  and the determinant is zero, and then with the message \<open>singular 3x3 matrix\<close>.  On a
  matrix whose three off-diagonal entries are zero it returns the entrywise reciprocal of
  the diagonal with no test at all: a zero diagonal entry gives an infinite entry of the
  result, not an abort.
\<close>

theorem sym_matrix_invert_aborts_only_off_diagonal:
  "(isl (sym_matrix_invert V) = (\<not> offdiag_zero V \<and> sym_det V = 0)) \<and>
   (isl (sym_matrix_invert V) \<longrightarrow> sym_matrix_invert V = Inl (Abort ''singular 3x3 matrix'')) \<and>
   (offdiag_zero V \<longrightarrow>
      sym_matrix_invert V =
        Inr \<lparr>m00 = fdiv 1 (m00 V), m01 = Fin 0, m02 = Fin 0,
             m11 = fdiv 1 (m11 V), m12 = Fin 0, m22 = fdiv 1 (m22 V)\<rparr>) \<and>
   (fdiv 1 0 = Inf)"
proof (intro conjI impI)
  show "isl (sym_matrix_invert V) = (\<not> offdiag_zero V \<and> sym_det V = 0)"
    by (rule sym_matrix_invert_isl)
next
  assume "isl (sym_matrix_invert V)"
  then have "\<not> offdiag_zero V" and "sym_det V = 0"
    by (simp_all add: sym_matrix_invert_isl)
  then show "sym_matrix_invert V = Inl (Abort ''singular 3x3 matrix'')"
    by (simp add: sym_matrix_invert_def)
next
  assume "offdiag_zero V"
  then show "sym_matrix_invert V =
        Inr \<lparr>m00 = fdiv 1 (m00 V), m01 = Fin 0, m02 = Fin 0,
             m11 = fdiv 1 (m11 V), m12 = Fin 0, m22 = fdiv 1 (m22 V)\<rparr>"
    by (rule sym_matrix_invert_diag)
next
  show "fdiv 1 0 = Inf"
    by (simp add: fdiv_def)
qed

theorem sym_matrix_invert_aborts_only_off_diagonal_witness:
  "sym_matrix_invert \<lparr>m00 = 0, m01 = 0, m02 = 0, m11 = 2, m12 = 0, m22 = 4\<rparr> =
     Inr \<lparr>m00 = Inf, m01 = Fin 0, m02 = Fin 0, m11 = Fin (1 / 2), m12 = Fin 0, m22 = Fin (1 / 4)\<rparr> \<and>
   sym_matrix_invert \<lparr>m00 = 1, m01 = 1, m02 = 1, m11 = 1, m12 = 1, m22 = 1\<rparr> =
     Inl (Abort ''singular 3x3 matrix'')"
proof
  let ?D = "\<lparr>m00 = 0, m01 = 0, m02 = 0, m11 = 2, m12 = 0, m22 = 4\<rparr> :: real symm_matrix"
  have "offdiag_zero ?D"
    by (simp add: offdiag_zero_def)
  with sym_matrix_invert_aborts_only_off_diagonal [of ?D]
  show "sym_matrix_invert ?D =
     Inr \<lparr>m00 = Inf, m01 = Fin 0, m02 = Fin 0, m11 = Fin (1 / 2), m12 = Fin 0, m22 = Fin (1 / 4)\<rparr>"
    by (simp add: fdiv_def)
next
  let ?S = "\<lparr>m00 = 1, m01 = 1, m02 = 1, m11 = 1, m12 = 1, m22 = 1\<rparr> :: real symm_matrix"
  have "\<not> offdiag_zero ?S \<and> sym_det ?S = 0"
    by (simp add: offdiag_zero_def sym_det_def)
  with sym_matrix_invert_aborts_only_off_diagonal [of ?S]
  show "sym_matrix_invert ?S = Inl (Abort ''singular 3x3 matrix'')"
    by simp
qed

subsection \<open>Threshold projection\<close>

lemma tanh_sum_zero_iff: "tanh a + tanh b = 0 \<longleftrightarrow> a + b = (0::real)"
proof
  assume "tanh a + tanh b = 0"
  then have "tanh a = tanh (- b)"
    by simp
  then have "a = - b"
    by (simp only: tanh_real_eq_iff)
  then show "a + b = 0"
    by simp
next
  assume "a + b = 0"
  then have "a = - b"
    by simp
  then show "tanh a + tanh b = 0"
    by simp
qed

text \<open>The quotient of \<^verbatim>\<open>tanh_projection\<close> is never a division by zero in the reals:
  its divisor vanishes only for \<open>\<beta> = 0\<close>, which the first guard has returned on.\<close>

lemma tanh_projection_divisor_nonzero:
  "\<beta> \<noteq> 0 \<Longrightarrow> tanh (\<beta> * \<eta>) + tanh (\<beta> * (1 - \<eta>)) \<noteq> (0::real)"
proof -
  assume nz: "\<beta> \<noteq> 0"
  have "\<beta> * \<eta> + \<beta> * (1 - \<eta>) = \<beta>"
    by (simp add: algebra_simps)
  with nz show ?thesis
    using tanh_sum_zero_iff [of "\<beta> * \<eta>" "\<beta> * (1 - \<eta>)"] by simp
qed

text \<open>
  Claim C2, as the code has it.  With \<open>\<beta> = 0\<close> the projection returns \<open>u\<close> for every
  \<open>u\<close> and \<open>\<eta>\<close>; with \<open>\<beta> \<noteq> 0\<close> and \<open>u = \<eta>\<close> it returns exactly \<open>0.5\<close>, by the second guard
  and before any hyperbolic tangent is computed.  The guard on \<open>\<beta>\<close> is tested first, so
  for \<open>\<beta> = 0\<close> and \<open>u = \<eta>\<close> the value is \<open>\<eta>\<close>, not \<open>0.5\<close>.
\<close>

theorem tanh_projection_guards:
  "tanh_projection u 0 \<eta> = u \<and> (\<beta> \<noteq> 0 \<longrightarrow> tanh_projection \<eta> \<beta> \<eta> = 1 / 2)"
  by (simp add: tanh_projection_def)

theorem tanh_projection_guards_witness:
  "tanh_projection (7 / 10) 0 (3 / 10) = 7 / 10 \<and> tanh_projection (3 / 10) 2 (3 / 10) = 1 / 2"
  using tanh_projection_guards [of "7 / 10" "3 / 10" 2]
  by simp

text \<open>The claim as the specification words it (\<open>0.5\<close> at \<open>u = \<eta>\<close> for every \<open>\<beta>\<close>) fails
  at \<open>\<beta> = 0\<close>, \<open>u = \<eta> = 0.3\<close>.\<close>

theorem tanh_projection_half_counterexample:
  "tanh_projection (3 / 10) 0 (3 / 10) \<noteq> 1 / 2"
  by (simp add: tanh_projection_def)

subsection \<open>Aggregation of overlapping density grids\<close>

lemma material_grid_val_entry:
  "is_material_grid (gbo_material ob) \<Longrightarrow>
   material_grid_val g (to_geom_box_coords g p ob) (gbo_material ob) = Inr (entry_val g p ob)"
  by (simp add: material_grid_val_def entry_val_def)

lemma matgrid_val_one:
  assumes "is_material_grid (gbo_material a)" and "\<not> is_material_grid (default_material g)"
    and "material_grid_kinds md = U_MEAN"
  shows "matgrid_val g p [a] md = Inr (entry_val g p a)"
  using assms by (simp add: matgrid_val_def material_grid_val_entry Let_def)

lemma matgrid_val_two:
  assumes "is_material_grid (gbo_material a)" and "is_material_grid (gbo_material b)"
    and "\<not> is_material_grid (default_material g)" and "material_grid_kinds md = U_MEAN"
  shows "matgrid_val g p [a, b] md = Inr ((entry_val g p a + entry_val g p b) / 2)"
  using assms by (simp add: matgrid_val_def material_grid_val_entry Let_def)

lemma matgrid_val_three_min:
  assumes "is_material_grid (gbo_material a)" and "is_material_grid (gbo_material b)"
    and "is_material_grid (gbo_material c)"
    and "\<not> is_material_grid (default_material g)" and "material_grid_kinds md = U_MIN"
  shows "matgrid_val g p [a, b, c] md =
           Inr (min (min (min 1 (entry_val g p a)) (entry_val g p b)) (entry_val g p c))"
  using assms by (simp add: matgrid_val_def material_grid_val_entry Let_def min_def)

lemma matgrid_val_three_prod:
  assumes "is_material_grid (gbo_material a)" and "is_material_grid (gbo_material b)"
    and "is_material_grid (gbo_material c)"
    and "\<not> is_material_grid (default_material g)" and "material_grid_kinds md = U_PROD"
  shows "matgrid_val g p [a, b, c] md = Inr (entry_val g p a * entry_val g p b * entry_val g p c)"
  using assms by (simp add: matgrid_val_def material_grid_val_entry Let_def)

lemma three_values_cases:
  fixes ua ub uc :: real
  assumes "distinct [ua, ub, uc]" and "set [ua, ub, uc] \<subseteq> {1 / 5, 1 / 2, 4 / 5}"
  shows "min (min (min 1 ua) ub) uc = 1 / 5 \<and> ua * ub * uc = 2 / 25"
proof -
  from assms have a: "ua = 1 / 5 \<or> ua = 1 / 2 \<or> ua = 4 / 5"
    and b: "ub = 1 / 5 \<or> ub = 1 / 2 \<or> ub = 4 / 5"
    and c: "uc = 1 / 5 \<or> uc = 1 / 2 \<or> uc = 4 / 5"
    and d: "ua \<noteq> ub" "ua \<noteq> uc" "ub \<noteq> uc"
    by auto
  from a b c d show ?thesis
    by (elim disjE; hypsubst; simp)
qed

text \<open>
  Claim C4.  The stack at the point holds grids only and the default material is not a
  grid.  With the MEAN policy two grids that interpolate to the same value give that
  value, which is what either of them gives alone.  Three grids whose interpolated values
  are 0.2, 0.5 and 0.8, in any order, give 0.2 with the MIN policy and 0.08 with the
  PRODUCT policy.
\<close>

theorem matgrid_val_aggregation:
  assumes "\<not> is_material_grid (default_material g)"
    and "is_material_grid (gbo_material a)" and "is_material_grid (gbo_material b)"
    and "is_material_grid (gbo_material c)"
  shows "(material_grid_kinds md = U_MEAN \<and> entry_val g p b = entry_val g p a \<longrightarrow>
            matgrid_val g p [a, b] md = Inr (entry_val g p a) \<and>
            matgrid_val g p [a] md = Inr (entry_val g p a) \<and>
            matgrid_val g p [b] md = Inr (entry_val g p a)) \<and>
         (distinct [entry_val g p a, entry_val g p b, entry_val g p c] \<and>
          set [entry_val g p a, entry_val g p b, entry_val g p c] \<subseteq> {1 / 5, 1 / 2, 4 / 5} \<longrightarrow>
            (material_grid_kinds md = U_MIN \<longrightarrow> matgrid_val g p [a, b, c] md = Inr (1 / 5)) \<and>
            (material_grid_kinds md = U_PROD \<longrightarrow> matgrid_val g p [a, b, c] md = Inr (2 / 25)))"
proof (intro conjI impI)
  assume h: "material_grid_kinds md = U_MEAN \<and> entry_val g p b = entry_val g p a"
  show "matgrid_val g p [a, b] md = Inr (entry_val g p a)"
    using assms h by (simp add: matgrid_val_two)
  show "matgrid_val g p [a] md = Inr (entry_val g p a)"
    using assms h by (simp add: matgrid_val_one)
  show "matgrid_val g p [b] md = Inr (entry_val g p a)"
    using assms h by (simp add: matgrid_val_one)
next
  assume h: "distinct [entry_val g p a, entry_val g p b, entry_val g p c] \<and>
          set [entry_val g p a, entry_val g p b, entry_val g p c] \<subseteq> {1 / 5, 1 / 2, 4 / 5}"
  have v: "min (min (min 1 (entry_val g p a)) (entry_val g p b)) (entry_val g p c) = 1 / 5 \<and>
           entry_val g p a * entry_val g p b * entry_val g p c = 2 / 25"
    using h by (intro three_values_cases) simp_all
  {
    assume "material_grid_kinds md = U_MIN"
    then show "matgrid_val g p [a, b, c] md = Inr (1 / 5)"
      using assms v by (simp add: matgrid_val_three_min)
  }
  {
    assume "material_grid_kinds md = U_PROD"
    then show "matgrid_val g p [a, b, c] md = Inr (2 / 25)"
      using assms v by (simp add: matgrid_val_three_prod)
  }
qed

lemma sample_entry_grid: "is_material_grid (gbo_material (sample_entry a k))"
  by (simp add: sample_entry_def sample_material_def is_material_grid_def)

lemma sample_default_not_grid: "\<not> is_material_grid (default_material (sample_geom t))"
  by (simp add: sample_geom_def sample_material_def is_material_grid_def)

lemma sample_entry_val:
  "entry_val (sample_geom t) p (sample_entry a k) =
     (if a = 2 then 1 / 2 else if a = 3 then 4 / 5 else 1 / 5)"
  by (simp add: entry_val_def sample_geom_def sample_entry_def sample_material_def)

lemma sample_kinds: "material_grid_kinds (sample_material a s k e) = k"
  by (simp add: sample_material_def)

theorem matgrid_val_aggregation_witness:
  "matgrid_val (sample_geom (\<lambda>p. [])) zero3 [sample_entry 1 U_MEAN, sample_entry 4 U_MEAN]
     (sample_material 1 MATERIAL_GRID U_MEAN 1) = Inr (1 / 5) \<and>
   matgrid_val (sample_geom (\<lambda>p. [])) zero3 [sample_entry 1 U_MEAN]
     (sample_material 1 MATERIAL_GRID U_MEAN 1) = Inr (1 / 5) \<and>
   matgrid_val (sample_geom (\<lambda>p. [])) zero3 [sample_entry 3 U_MIN, sample_entry 1 U_MIN, sample_entry 2 U_MIN]
     (sample_material 3 MATERIAL_GRID U_MIN 1) = Inr (1 / 5) \<and>
   matgrid_val (sample_geom (\<lambda>p. [])) zero3 [sample_entry 3 U_PROD, sample_entry 1 U_PROD, sample_entry 2 U_PROD]
     (sample_material 3 MATERIAL_GRID U_PROD 1) = Inr (2 / 25)"
proof (intro conjI)
  let ?g = "sample_geom (\<lambda>p. [])"
  note mean = matgrid_val_aggregation [of ?g "sample_entry 1 U_MEAN" "sample_entry 4 U_MEAN"
      "sample_entry 1 U_MEAN" "sample_material 1 MATERIAL_GRID U_MEAN 1" zero3,
      OF sample_default_not_grid sample_entry_grid sample_entry_grid sample_entry_grid]
  show "matgrid_val ?g zero3 [sample_entry 1 U_MEAN, sample_entry 4 U_MEAN]
     (sample_material 1 MATERIAL_GRID U_MEAN 1) = Inr (1 / 5)"
    using mean by (simp add: sample_entry_val sample_kinds)
  show "matgrid_val ?g zero3 [sample_entry 1 U_MEAN]
     (sample_material 1 MATERIAL_GRID U_MEAN 1) = Inr (1 / 5)"
    using mean by (simp add: sample_entry_val sample_kinds)
  show "matgrid_val ?g zero3 [sample_entry 3 U_MIN, sample_entry 1 U_MIN, sample_entry 2 U_MIN]
     (sample_material 3 MATERIAL_GRID U_MIN 1) = Inr (1 / 5)"
    using matgrid_val_aggregation [of ?g "sample_entry 3 U_MIN" "sample_entry 1 U_MIN"
      "sample_entry 2 U_MIN" "sample_material 3 MATERIAL_GRID U_MIN 1" zero3,
      OF sample_default_not_grid sample_entry_grid sample_entry_grid sample_entry_grid]
    by (simp add: sample_entry_val sample_kinds)
  show "matgrid_val ?g zero3 [sample_entry 3 U_PROD, sample_entry 1 U_PROD, sample_entry 2 U_PROD]
     (sample_material 3 MATERIAL_GRID U_PROD 1) = Inr (2 / 25)"
    using matgrid_val_aggregation [of ?g "sample_entry 3 U_PROD" "sample_entry 1 U_PROD"
      "sample_entry 2 U_PROD" "sample_material 3 MATERIAL_GRID U_PROD 1" zero3,
      OF sample_default_not_grid sample_entry_grid sample_entry_grid sample_entry_grid]
    by (simp add: sample_entry_val sample_kinds)
qed

subsection \<open>The gradient path rejects MIN and PRODUCT\<close>

text \<open>
  Claim C5.  \<^verbatim>\<open>matgrid_grad\<close> aborts whenever the grid it is called for has the MIN or the
  PRODUCT policy, whatever the stack at the point.  \<^verbatim>\<open>material_grids_addgradient_point\<close>
  aborts whenever the tree has an entry at the point, the first entry is a grid and that
  grid has the MIN or the PRODUCT policy: in particular for every stack of overlapping
  grids with one of these policies.  Neither returns a gradient there.
\<close>

theorem gradient_path_rejects_min_prod:
  "(material_grid_kinds md = U_MIN \<or> material_grid_kinds md = U_PROD \<longrightarrow>
      matgrid_grad g p tp md =
        Inl (Abort ''matgrid_grad does not support overlapping grids with U_MIN or U_PROD'')) \<and>
   (geometry_tree g p = ob # rest \<and> is_material_grid (gbo_material ob) \<and>
    (material_grid_kinds (gbo_material ob) = U_MIN \<or>
     material_grid_kinds (gbo_material ob) = U_PROD) \<longrightarrow>
      material_grids_addgradient_point g aiw kind0 v p scalegrad =
        Inl (Abort ''material_grids_addgradient_point does not support overlapping MATERIAL_GRIDs with U_MIN or U_PROD.''))"
proof (intro conjI impI)
  assume "material_grid_kinds md = U_MIN \<or> material_grid_kinds md = U_PROD"
  then show "matgrid_grad g p tp md =
        Inl (Abort ''matgrid_grad does not support overlapping grids with U_MIN or U_PROD'')"
    by (simp add: matgrid_grad_def)
next
  assume h: "geometry_tree g p = ob # rest \<and> is_material_grid (gbo_material ob) \<and>
    (material_grid_kinds (gbo_material ob) = U_MIN \<or>
     material_grid_kinds (gbo_material ob) = U_PROD)"
  then have "which_subclass (gbo_material ob) = MATERIAL_GRID"
    by (simp add: is_material_grid_def)
  with h show "material_grids_addgradient_point g aiw kind0 v p scalegrad =
        Inl (Abort ''material_grids_addgradient_point does not support overlapping MATERIAL_GRIDs with U_MIN or U_PROD.'')"
    by (auto simp add: material_grids_addgradient_point_def Let_def)
qed

theorem gradient_path_rejects_min_prod_witness:
  "matgrid_grad (sample_geom (\<lambda>p. [sample_entry 1 U_MIN, sample_entry 2 U_MIN])) zero3
      [sample_entry 1 U_MIN, sample_entry 2 U_MIN] (sample_material 1 MATERIAL_GRID U_MIN 1) =
     Inl (Abort ''matgrid_grad does not support overlapping grids with U_MIN or U_PROD'') \<and>
   material_grids_addgradient_point
      (sample_geom (\<lambda>p. [sample_entry 1 U_PROD, sample_entry 2 U_PROD]))
      (\<lambda>pb s mg k u (w::real). w + s * u) U_DEFAULT 0 zero3 1 =
     Inl (Abort ''material_grids_addgradient_point does not support overlapping MATERIAL_GRIDs with U_MIN or U_PROD.'')"
proof
  show "matgrid_grad (sample_geom (\<lambda>p. [sample_entry 1 U_MIN, sample_entry 2 U_MIN])) zero3
      [sample_entry 1 U_MIN, sample_entry 2 U_MIN] (sample_material 1 MATERIAL_GRID U_MIN 1) =
     Inl (Abort ''matgrid_grad does not support overlapping grids with U_MIN or U_PROD'')"
    using gradient_path_rejects_min_prod
      [THEN conjunct1, of "sample_material 1 MATERIAL_GRID U_MIN 1"
          "sample_geom (\<lambda>p. [sample_entry 1 U_MIN, sample_entry 2 U_MIN])" zero3
          "[sample_entry 1 U_MIN, sample_entry 2 U_MIN]"]
    by (simp add: sample_kinds)
next
  let ?g = "sample_geom (\<lambda>p. [sample_entry 1 U_PROD, sample_entry 2 U_PROD])"
  have t: "geometry_tree ?g zero3 = sample_entry 1 U_PROD # [sample_entry 2 U_PROD]"
    by (simp add: sample_geom_def)
  have k: "material_grid_kinds (gbo_material (sample_entry 1 U_PROD)) = U_PROD"
    by (simp add: sample_entry_def sample_kinds)
  from gradient_path_rejects_min_prod
      [of "sample_material 1 MATERIAL_GRID U_MIN 1" ?g zero3 "[]" "sample_entry 1 U_PROD"
          "[sample_entry 2 U_PROD]" "\<lambda>pb s mg k u (w::real). w + s * u" U_DEFAULT 0 1]
    t k sample_entry_grid [of 1 U_PROD]
  show "material_grids_addgradient_point ?g
      (\<lambda>pb s mg k u (w::real). w + s * u) U_DEFAULT 0 zero3 1 =
     Inl (Abort ''material_grids_addgradient_point does not support overlapping MATERIAL_GRIDs with U_MIN or U_PROD.'')"
    by simp
qed

subsection \<open>Fragment cost\<close>

text \<open>
  Claim C9.  \<^verbatim>\<open>cost\<close> does not decrease when one counter of the fragment statistics is
  raised and the nine others are kept: this holds for each of the ten counters.
\<close>

theorem cost_monotone_in_each_count:
  assumes "n \<le> n'"
  shows "cost (s\<lparr>num_anisotropic_eps_pixels := n\<rparr>) \<le> cost (s\<lparr>num_anisotropic_eps_pixels := n'\<rparr>) \<and>
         cost (s\<lparr>num_anisotropic_mu_pixels := n\<rparr>) \<le> cost (s\<lparr>num_anisotropic_mu_pixels := n'\<rparr>) \<and>
         cost (s\<lparr>num_nonlinear_pixels := n\<rparr>) \<le> cost (s\<lparr>num_nonlinear_pixels := n'\<rparr>) \<and>
         cost (s\<lparr>num_susceptibility_pixels := n\<rparr>) \<le> cost (s\<lparr>num_susceptibility_pixels := n'\<rparr>) \<and>
         cost (s\<lparr>num_nonzero_conductivity_pixels := n\<rparr>) \<le> cost (s\<lparr>num_nonzero_conductivity_pixels := n'\<rparr>) \<and>
         cost (s\<lparr>num_1d_pml_pixels := n\<rparr>) \<le> cost (s\<lparr>num_1d_pml_pixels := n'\<rparr>) \<and>
         cost (s\<lparr>num_2d_pml_pixels := n\<rparr>) \<le> cost (s\<lparr>num_2d_pml_pixels := n'\<rparr>) \<and>
         cost (s\<lparr>num_3d_pml_pixels := n\<rparr>) \<le> cost (s\<lparr>num_3d_pml_pixels := n'\<rparr>) \<and>
         cost (s\<lparr>num_dft_pixels := n\<rparr>) \<le> cost (s\<lparr>num_dft_pixels := n'\<rparr>) \<and>
         cost (s\<lparr>num_pixels_in_box := n\<rparr>) \<le> cost (s\<lparr>num_pixels_in_box := n'\<rparr>)"
proof -
  have "real n \<le> real n'"
    using assms by simp
  then show ?thesis
    by (simp add: cost_def)
qed

theorem cost_monotone_in_each_count_witness:
  "cost \<lparr>num_anisotropic_eps_pixels = 3, num_anisotropic_mu_pixels = 0, num_nonlinear_pixels = 0,
         num_susceptibility_pixels = 0, num_nonzero_conductivity_pixels = 0,
         num_1d_pml_pixels = 0, num_2d_pml_pixels = 0, num_3d_pml_pixels = 0,
         num_dft_pixels = 0, num_pixels_in_box = 10\<rparr>
   \<le> cost \<lparr>num_anisotropic_eps_pixels = 7, num_anisotropic_mu_pixels = 0, num_nonlinear_pixels = 0,
         num_susceptibility_pixels = 0, num_nonzero_conductivity_pixels = 0,
         num_1d_pml_pixels = 0, num_2d_pml_pixels = 0, num_3d_pml_pixels = 0,
         num_dft_pixels = 0, num_pixels_in_box = 10\<rparr>"
  using cost_monotone_in_each_count [of 3 7
      "\<lparr>num_anisotropic_eps_pixels = 0, num_anisotropic_mu_pixels = 0, num_nonlinear_pixels = 0,
         num_susceptibility_pixels = 0, num_nonzero_conductivity_pixels = 0,
         num_1d_pml_pixels = 0, num_2d_pml_pixels = 0, num_3d_pml_pixels = 0,
         num_dft_pixels = 0, num_pixels_in_box = 10\<rparr>"]
  by simp

subsection \<open>The mixing rule\<close>


lemma mat_mul_assoc: "mat_mul (mat_mul A B) C = mat_mul A (mat_mul B C)"
  by (simp add: mat_mul_def algebra_simps)

lemma mat_mul_id_left: "mat_mul mat_identity A = A"
  by (simp add: mat_mul_def mat_identity_def)

lemma mat_mul_id_right: "mat_mul A mat_identity = A"
  by (simp add: mat_mul_def mat_identity_def)

lemma sym_full_rotate:
  "sym_full (sym_matrix_rotate A R) = mat_mul (mat_transpose R) (mat_mul (sym_full A) R)"
  by (simp add: sym_full_def sym_matrix_rotate_def mat_mul_def mat_transpose_def Let_def algebra_simps)

lemma sym_full_inj: "sym_full A = sym_full B \<Longrightarrow> A = B"
  by (cases A, cases B) (simp add: sym_full_def)

lemma transpose_transpose: "mat_transpose (mat_transpose R) = R"
  by (simp add: mat_transpose_def)

lemma rotate_back:
  assumes "mat_mul R (mat_transpose R) = mat_identity"
  shows "sym_matrix_rotate (sym_matrix_rotate A R) (mat_transpose R) = A"
proof (rule sym_full_inj)
  have "sym_full (sym_matrix_rotate (sym_matrix_rotate A R) (mat_transpose R)) =
        mat_mul R (mat_mul (mat_mul (mat_transpose R) (mat_mul (sym_full A) R)) (mat_transpose R))"
    by (simp only: sym_full_rotate transpose_transpose)
  also have "\<dots> = mat_mul (mat_mul R (mat_transpose R)) (mat_mul (sym_full A) (mat_mul R (mat_transpose R)))"
    by (simp only: mat_mul_assoc)
  also have "\<dots> = sym_full A"
    by (simp only: assms mat_mul_id_left mat_mul_id_right)
  finally show "sym_full (sym_matrix_rotate (sym_matrix_rotate A R) (mat_transpose R)) = sym_full A" .
qed

lemma rot_branch1:
  fixes nx ny nz t :: real
  assumes "t * t * (ny * ny + nx * nx) = 1" and "nx * nx + ny * ny + nz * nz = 1"
  shows "mat_mul \<lparr>r00 = nx, r01 = (- nx * t) * nz - 0 * ny, r02 = ny * t,
                    r10 = ny, r11 = 0 * nx - (ny * t) * nz, r12 = - nx * t,
                    r20 = nz, r21 = (ny * t) * ny - (- nx * t) * nx, r22 = 0\<rparr>
           (mat_transpose \<lparr>r00 = nx, r01 = (- nx * t) * nz - 0 * ny, r02 = ny * t,
                    r10 = ny, r11 = 0 * nx - (ny * t) * nz, r12 = - nx * t,
                    r20 = nz, r21 = (ny * t) * ny - (- nx * t) * nx, r22 = 0\<rparr>) = mat_identity"
  using assms
  apply (simp add: mat_mul_def mat_transpose_def mat_identity_def)
  apply (intro conjI)
  apply algebra+
  done


lemma rot_branch2:
  fixes nx ny nz t :: real
  assumes "t * t * (nz * nz + ny * ny) = 1" and "nx * nx + ny * ny + nz * nz = 1"
  shows "mat_mul \<lparr>r00 = nx, r01 = (- nz * t) * nz - (ny * t) * ny, r02 = 0 * t,
                    r10 = ny, r11 = (ny * t) * nx - (0 * t) * nz, r12 = - nz * t,
                    r20 = nz, r21 = (0 * t) * ny - (- nz * t) * nx, r22 = ny * t\<rparr>
           (mat_transpose \<lparr>r00 = nx, r01 = (- nz * t) * nz - (ny * t) * ny, r02 = 0 * t,
                    r10 = ny, r11 = (ny * t) * nx - (0 * t) * nz, r12 = - nz * t,
                    r20 = nz, r21 = (0 * t) * ny - (- nz * t) * nx, r22 = ny * t\<rparr>) = mat_identity"
  using assms
  apply (simp add: mat_mul_def mat_transpose_def mat_identity_def)
  apply (intro conjI)
  apply algebra+
  done


lemma inv_sqrt_sq:
  fixes q :: real
  assumes "0 < q"
  shows "(1 / sqrt q) * (1 / sqrt q) * q = 1"
proof -
  have "sqrt q * sqrt q = q"
    using assms by simp
  moreover have "sqrt q \<noteq> 0"
    using assms by simp
  ultimately show ?thesis
    by (simp add: field_simps)
qed

lemma qpos1:
  fixes a b :: real
  assumes "\<bar>a\<bar> > 1 / 100 \<or> \<bar>b\<bar> > 1 / 100"
  shows "0 < b * b + a * a"
proof -
  have "a \<noteq> 0 \<or> b \<noteq> 0"
    using assms by auto
  then show ?thesis
    by (auto simp add: sum_squares_gt_zero_iff)
qed

lemma qpos2:
  fixes a b c :: real
  assumes "\<not> (\<bar>a\<bar> > 1 / 100 \<or> \<bar>b\<bar> > 1 / 100)" and "a * a + b * b + c * c = 1"
  shows "0 < c * c + b * b"
proof -
  have "\<bar>a\<bar> \<le> 1 / 100"
    using assms(1) by simp
  then have "\<bar>a\<bar> * \<bar>a\<bar> \<le> (1 / 100) * (1 / 100)"
    by (intro mult_mono) simp_all
  then have "a * a \<le> 1 / 10000"
    by simp
  with assms(2) show ?thesis
    by simp
qed

lemma rot1:
  assumes br: "\<bar>vx n\<bar> > 1 / 100 \<or> \<bar>vy n\<bar> > 1 / 100"
  shows "kottke_rotation n =
      Inr \<lparr>r00 = vx n,
           r01 = (- vx n * (1 / sqrt (vy n * vy n + vx n * vx n))) * vz n - 0 * vy n,
           r02 = vy n * (1 / sqrt (vy n * vy n + vx n * vx n)),
           r10 = vy n,
           r11 = 0 * vx n - (vy n * (1 / sqrt (vy n * vy n + vx n * vx n))) * vz n,
           r12 = - vx n * (1 / sqrt (vy n * vy n + vx n * vx n)),
           r20 = vz n,
           r21 = (vy n * (1 / sqrt (vy n * vy n + vx n * vx n))) * vy n -
                 (- vx n * (1 / sqrt (vy n * vy n + vx n * vx n))) * vx n,
           r22 = 0\<rparr>"
proof -
  have "vy n = 0 \<longrightarrow> vx n \<noteq> 0"
    using qpos1 [OF br] by auto
  then show ?thesis
    using br by (simp add: kottke_rotation_def Let_def)
qed

lemma rot2:
  assumes br: "\<not> (\<bar>vx n\<bar> > 1 / 100 \<or> \<bar>vy n\<bar> > 1 / 100)"
    and unit: "vx n * vx n + vy n * vy n + vz n * vz n = 1"
  shows "kottke_rotation n =
      Inr \<lparr>r00 = vx n,
           r01 = (- vz n * (1 / sqrt (vz n * vz n + vy n * vy n))) * vz n -
                 (vy n * (1 / sqrt (vz n * vz n + vy n * vy n))) * vy n,
           r02 = 0 * (1 / sqrt (vz n * vz n + vy n * vy n)),
           r10 = vy n,
           r11 = (vy n * (1 / sqrt (vz n * vz n + vy n * vy n))) * vx n -
                 (0 * (1 / sqrt (vz n * vz n + vy n * vy n))) * vz n,
           r12 = - vz n * (1 / sqrt (vz n * vz n + vy n * vy n)),
           r20 = vz n,
           r21 = (0 * (1 / sqrt (vz n * vz n + vy n * vy n))) * vy n -
                 (- vz n * (1 / sqrt (vz n * vz n + vy n * vy n))) * vx n,
           r22 = vy n * (1 / sqrt (vz n * vz n + vy n * vy n))\<rparr>"
proof -
  have "vz n = 0 \<longrightarrow> vy n \<noteq> 0"
    using qpos2 [OF br unit] by auto
  then show ?thesis
    using br by (simp add: kottke_rotation_def Let_def)
qed


lemma kottke_rotation_unit:
  assumes unit: "vx n * vx n + vy n * vy n + vz n * vz n = 1"
  shows "\<exists>R. kottke_rotation n = Inr R \<and> mat_mul R (mat_transpose R) = mat_identity \<and>
             r00 R = vx n \<and> r10 R = vy n \<and> r20 R = vz n"
proof (cases "\<bar>vx n\<bar> > 1 / 100 \<or> \<bar>vy n\<bar> > 1 / 100")
  case True
  let ?t = "1 / sqrt (vy n * vy n + vx n * vx n)"
  have tq: "?t * ?t * (vy n * vy n + vx n * vx n) = 1"
    by (rule inv_sqrt_sq [OF qpos1 [OF True]])
  show ?thesis
    unfolding rot1 [OF True]
    by (intro exI conjI) (rule refl, rule rot_branch1 [OF tq unit], simp_all)
next
  case False
  let ?t = "1 / sqrt (vz n * vz n + vy n * vy n)"
  have tq: "?t * ?t * (vz n * vz n + vy n * vy n) = 1"
    by (rule inv_sqrt_sq [OF qpos2 [OF False unit]])
  show ?thesis
    unfolding rot2 [OF False unit]
    by (intro exI conjI) (rule refl, rule rot_branch2 [OF tq unit], simp_all)
qed

lemma rotate_m00:
  "r00 R = vx n \<Longrightarrow> r10 R = vy n \<Longrightarrow> r20 R = vz n \<Longrightarrow>
   m00 (sym_matrix_rotate V R) = normal_component n V"
  by (simp add: sym_matrix_rotate_def mat_mul_def sym_full_def Let_def normal_component_def algebra_simps)

lemma kottke_mixing_fill_one:
  assumes "m00 e1 \<noteq> 0" and "m00 e2 \<noteq> 0"
  shows "kottke_mixing 1 e1 e2 = Inr e1"
  using assms by (cases e1) (simp add: kottke_mixing_def Let_def field_simps)

lemma kottke_mixing_fill_zero:
  assumes "m00 e1 \<noteq> 0" and "m00 e2 \<noteq> 0"
  shows "kottke_mixing 0 e1 e2 = Inr e2"
  using assms by (cases e2) (simp add: kottke_mixing_def Let_def field_simps)

text \<open>For a unit normal and two tensors whose components along the normal are not zero,
  the mixing with fill fraction 1 returns the first tensor and with fill fraction 0 the
  second.\<close>

lemma kottke_average_fill_zero_or_one:
  assumes unit: "vx n * vx n + vy n * vy n + vz n * vz n = 1"
    and n1: "normal_component n eps1 \<noteq> 0" and n2: "normal_component n eps2 \<noteq> 0"
  shows "kottke_average 1 n eps1 eps2 = Inr eps1 \<and> kottke_average 0 n eps1 eps2 = Inr eps2"
proof -
  from kottke_rotation_unit [OF unit] obtain R where
    rot: "kottke_rotation n = Inr R" and orth: "mat_mul R (mat_transpose R) = mat_identity"
    and col: "r00 R = vx n" "r10 R = vy n" "r20 R = vz n"
    by blast
  have a: "m00 (sym_matrix_rotate eps1 R) \<noteq> 0"
    using n1 col by (simp add: rotate_m00)
  have b: "m00 (sym_matrix_rotate eps2 R) \<noteq> 0"
    using n2 col by (simp add: rotate_m00)
  show ?thesis
    by (simp add: kottke_average_def rot kottke_mixing_fill_one [OF a b]
        kottke_mixing_fill_zero [OF a b] rotate_back [OF orth])
qed


lemma kottke_mixing_isotropic:
  assumes "e1 \<noteq> 0" and "e2 \<noteq> 0" and "f * (- 1 / e1) + (1 - f) * (- 1 / e2) \<noteq> 0"
  shows "kottke_mixing f (isotropic e1) (isotropic e2) =
           Inr \<lparr>m00 = - 1 / (f * (- 1 / e1) + (1 - f) * (- 1 / e2)), m01 = 0, m02 = 0,
                m11 = f * e1 + (1 - f) * e2, m12 = 0, m22 = f * e1 + (1 - f) * e2\<rparr>"
  using assms by (simp add: kottke_mixing_def isotropic_def Let_def)

lemma kottke_rotation_x:
  "s = 1 \<or> s = - 1 \<Longrightarrow>
   kottke_rotation \<lparr>vx = s, vy = 0, vz = 0\<rparr> =
     Inr \<lparr>r00 = s, r01 = 0, r02 = 0, r10 = 0, r11 = 0, r12 = - s, r20 = 0, r21 = 1, r22 = 0\<rparr>"
  by (auto simp add: kottke_rotation_def Let_def)

lemma kottke_rotation_y:
  "s = 1 \<or> s = - 1 \<Longrightarrow>
   kottke_rotation \<lparr>vx = 0, vy = s, vz = 0\<rparr> =
     Inr \<lparr>r00 = 0, r01 = 0, r02 = s, r10 = s, r11 = 0, r12 = 0, r20 = 0, r21 = 1, r22 = 0\<rparr>"
  by (auto simp add: kottke_rotation_def Let_def)

lemma kottke_rotation_z:
  "s = 1 \<or> s = - 1 \<Longrightarrow>
   kottke_rotation \<lparr>vx = 0, vy = 0, vz = s\<rparr> =
     Inr \<lparr>r00 = 0, r01 = - 1, r02 = 0, r10 = 0, r11 = 0, r12 = - s, r20 = s, r21 = 0, r22 = 0\<rparr>"
  by (auto simp add: kottke_rotation_def Let_def)

lemma rotate_isotropic_x:
  "s = 1 \<or> s = - 1 \<Longrightarrow>
   sym_matrix_rotate (isotropic e)
     \<lparr>r00 = s, r01 = 0, r02 = 0, r10 = 0, r11 = 0, r12 = - s, r20 = 0, r21 = 1, r22 = 0\<rparr> = isotropic e"
  by (auto simp add: sym_matrix_rotate_def mat_mul_def sym_full_def isotropic_def Let_def)

lemma rotate_isotropic_y:
  "s = 1 \<or> s = - 1 \<Longrightarrow>
   sym_matrix_rotate (isotropic e)
     \<lparr>r00 = 0, r01 = 0, r02 = s, r10 = s, r11 = 0, r12 = 0, r20 = 0, r21 = 1, r22 = 0\<rparr> = isotropic e"
  by (auto simp add: sym_matrix_rotate_def mat_mul_def sym_full_def isotropic_def Let_def)

lemma rotate_isotropic_z:
  "s = 1 \<or> s = - 1 \<Longrightarrow>
   sym_matrix_rotate (isotropic e)
     \<lparr>r00 = 0, r01 = - 1, r02 = 0, r10 = 0, r11 = 0, r12 = - s, r20 = s, r21 = 0, r22 = 0\<rparr> = isotropic e"
  by (auto simp add: sym_matrix_rotate_def mat_mul_def sym_full_def isotropic_def Let_def)

lemma rotate_back_x:
  "s = 1 \<or> s = - 1 \<Longrightarrow>
   sym_matrix_rotate \<lparr>m00 = h, m01 = 0, m02 = 0, m11 = a, m12 = 0, m22 = a\<rparr>
     (mat_transpose \<lparr>r00 = s, r01 = 0, r02 = 0, r10 = 0, r11 = 0, r12 = - s, r20 = 0, r21 = 1, r22 = 0\<rparr>) =
   \<lparr>m00 = h, m01 = 0, m02 = 0, m11 = a, m12 = 0, m22 = a\<rparr>"
  by (auto simp add: sym_matrix_rotate_def mat_mul_def sym_full_def mat_transpose_def Let_def)

lemma rotate_back_y:
  "s = 1 \<or> s = - 1 \<Longrightarrow>
   sym_matrix_rotate \<lparr>m00 = h, m01 = 0, m02 = 0, m11 = a, m12 = 0, m22 = a\<rparr>
     (mat_transpose \<lparr>r00 = 0, r01 = 0, r02 = s, r10 = s, r11 = 0, r12 = 0, r20 = 0, r21 = 1, r22 = 0\<rparr>) =
   \<lparr>m00 = a, m01 = 0, m02 = 0, m11 = h, m12 = 0, m22 = a\<rparr>"
  by (auto simp add: sym_matrix_rotate_def mat_mul_def sym_full_def mat_transpose_def Let_def)

lemma rotate_back_z:
  "s = 1 \<or> s = - 1 \<Longrightarrow>
   sym_matrix_rotate \<lparr>m00 = h, m01 = 0, m02 = 0, m11 = a, m12 = 0, m22 = a\<rparr>
     (mat_transpose \<lparr>r00 = 0, r01 = - 1, r02 = 0, r10 = 0, r11 = 0, r12 = - s, r20 = s, r21 = 0, r22 = 0\<rparr>) =
   \<lparr>m00 = a, m01 = 0, m02 = 0, m11 = a, m12 = 0, m22 = h\<rparr>"
  by (auto simp add: sym_matrix_rotate_def mat_mul_def sym_full_def mat_transpose_def Let_def)

text \<open>Two isotropic tensors and a unit normal along an axis: the mixing gives the harmonic
  expression at the axis of the normal and the arithmetic one at the two other places.\<close>

lemma kottke_average_isotropic_axis:
  assumes "e1 \<noteq> 0" and "e2 \<noteq> 0" and "f * (- 1 / e1) + (1 - f) * (- 1 / e2) \<noteq> 0"
    and "s = 1 \<or> s = - 1"
  shows "kottke_average f \<lparr>vx = s, vy = 0, vz = 0\<rparr> (isotropic e1) (isotropic e2) =
           Inr \<lparr>m00 = - 1 / (f * (- 1 / e1) + (1 - f) * (- 1 / e2)), m01 = 0, m02 = 0,
                m11 = f * e1 + (1 - f) * e2, m12 = 0, m22 = f * e1 + (1 - f) * e2\<rparr> \<and>
         kottke_average f \<lparr>vx = 0, vy = s, vz = 0\<rparr> (isotropic e1) (isotropic e2) =
           Inr \<lparr>m00 = f * e1 + (1 - f) * e2, m01 = 0, m02 = 0,
                m11 = - 1 / (f * (- 1 / e1) + (1 - f) * (- 1 / e2)), m12 = 0,
                m22 = f * e1 + (1 - f) * e2\<rparr> \<and>
         kottke_average f \<lparr>vx = 0, vy = 0, vz = s\<rparr> (isotropic e1) (isotropic e2) =
           Inr \<lparr>m00 = f * e1 + (1 - f) * e2, m01 = 0, m02 = 0,
                m11 = f * e1 + (1 - f) * e2, m12 = 0,
                m22 = - 1 / (f * (- 1 / e1) + (1 - f) * (- 1 / e2))\<rparr>"
  using assms(4)
  by (simp only: kottke_average_def kottke_rotation_x kottke_rotation_y kottke_rotation_z
      rotate_isotropic_x rotate_isotropic_y rotate_isotropic_z
      kottke_mixing_isotropic [OF assms(1) assms(2) assms(3)] sum.case
      rotate_back_x rotate_back_y rotate_back_z simp_thms)


subsection \<open>The fallback averager\<close>






lemma eps_func_flags_negative_trace:
  "eps_point g ft n x = Inr (ep, s) \<Longrightarrow> snd (eps_func g ft n x flag) = (flag \<or> ep < 0)"
  "eps_point g ft n x = Inr (ep, s) \<Longrightarrow> ep \<noteq> 0 \<Longrightarrow> snd (inveps_func g ft n x flag) = (flag \<or> ep < 0)"
  by (simp_all add: eps_func_def inveps_func_def)







lemma sample_dim: "dim (sample_geom t) = D2"
  by (simp add: sample_geom_def)

lemma eval_material_pt_medium:
  "which_subclass m = MEDIUM \<Longrightarrow> eval_material_pt g m p = Inr m"
  by (simp add: eval_material_pt_def)

lemma sample_material_subclass: "which_subclass (sample_material a k kinds e) = k"
  by (simp add: sample_material_def)

lemma material_epsmu_sample:
  "k \<noteq> PERFECT_METAL \<Longrightarrow>
   material_epsmu g E_stuff (sample_material a k kinds e) =
     Inr (isotropic e, \<lparr>m00 = fdiv 1 e, m01 = Fin 0, m02 = Fin 0,
                        m11 = fdiv 1 e, m12 = Fin 0, m22 = fdiv 1 e\<rparr>)"
  by (cases k)
     (simp_all add: material_epsmu_def sample_material_def iso_medium_def medium_tensor_def
        sym_matrix_invert_def offdiag_zero_def czero3_def isotropic_def Let_def)







subsection \<open>Paths of the averaging routine\<close>

lemma eff_noavg_unfold:
  "eff_noavg g px =
     (case get_material_pt g (px_center px) of
        Inl e \<Rightarrow> Inl e
      | Inr m \<Rightarrow>
          (case material_epsmu g (px_ft px) m of
             Inl e \<Rightarrow> Inl e
           | Inr (meps, minv) \<Rightarrow> Inr (Matrix minv)))"
  by (simp add: eff_noavg_def eff_trivial_def split: sum.splits)

lemma eff_maxeval_zero: "eff_chi1inv_matrix g (px\<lparr>px_maxeval := 0\<rparr>) = eff_noavg g px"
  by (simp add: eff_chi1inv_matrix_def eff_noavg_def eff_trivial_def Let_def split: sum.splits)

lemma eff_average_zero_normal:
  assumes "\<not> is_metal (px_ft px) mat" and "\<not> is_metal (px_ft px) mat_behind"
    and "\<not> is_material_grid mat"
    and "vx (surface_normal px) = 0 \<and> vy (surface_normal px) = 0 \<and> vz (surface_normal px) = 0"
  shows "eff_average g px mat mat_behind gi = eff_noavg g px"
  using assms by (simp add: eff_average_def)

lemma eff_average_metal:
  "is_metal (px_ft px) mat \<or> is_metal (px_ft px) mat_behind \<Longrightarrow>
   eff_average g px mat mat_behind gi = eff_noavg g px"
  by (simp add: eff_average_def)

lemma eff_average_kottke:
  assumes "\<not> is_metal (px_ft px) mat" and "\<not> is_metal (px_ft px) mat_behind"
    and "\<not> is_material_grid mat"
    and "\<not> (vx (surface_normal px) = 0 \<and> vy (surface_normal px) = 0 \<and> vz (surface_normal px) = 0)"
  shows "eff_average g px mat mat_behind gi =
           eff_kottke g px mat mat_behind (Some (surface_normal px)) (box_overlap px)"
  using assms by (auto simp add: eff_average_def)

lemma eff_chi1inv_matrix_media:
  assumes "px_maxeval px \<noteq> 0" and "front_found px"
    and "which_subclass (front_mat px) = MEDIUM" and "which_subclass (front_mat_behind px) = MEDIUM"
    and "\<not> material_type_equal (front_mat px) (front_mat_behind px)"
  shows "eff_chi1inv_matrix g px = eff_average g px (front_mat px) (front_mat_behind px) None"
  using assms
  by (simp add: eff_chi1inv_matrix_def Let_def is_variable_def is_material_grid_def
      eval_material_pt_def)

lemma eff_chi1inv_matrix_two_materials:
  assumes "px_maxeval px \<noteq> 0" "front_found px"
    and "\<not> (is_variable (front_mat px) False \<and> do_averaging (front_mat px))"
      "\<not> (is_variable (front_mat_behind px) False \<and> do_averaging (front_mat_behind px))"
    and "\<not> is_material_grid (front_mat px)"
    and "\<not> material_type_equal (front_mat px) (front_mat_behind px)"
    and "eval_material_pt g (front_mat px) (front_p_mat px) = Inr mat"
      "eval_material_pt g (front_mat_behind px) (front_p_mat_behind px) = Inr mat_behind"
    and "\<not> material_type_equal mat mat_behind"
  shows "eff_chi1inv_matrix g px = eff_average g px mat mat_behind None"
  using assms by (auto simp add: eff_chi1inv_matrix_def Let_def)

lemma eff_kottke_diagonal:
  assumes e1: "material_epsmu g (px_ft px) mat = Inr (eps1, inv1)"
    and e2: "material_epsmu g (px_ft px) mat_behind = Inr (eps2, inv2)"
    and ka: "kottke_average fill n eps1 eps2 =
               Inr \<lparr>m00 = a, m01 = 0, m02 = 0, m11 = b, m12 = 0, m22 = c\<rparr>"
    and pos: "0 < a" "0 < b" "0 < c"
  shows "eff_kottke g px mat mat_behind (Some n) fill =
           Inr (Matrix \<lparr>m00 = Fin (1 / a), m01 = Fin 0, m02 = Fin 0,
                        m11 = Fin (1 / b), m12 = Fin 0, m22 = Fin (1 / c)\<rparr>)"
  using pos
  by (simp add: eff_kottke_def e1 e2 ka sym_matrix_positive_definite_def sym_matrix_invert_def
      offdiag_zero_def fdiv_def Let_def)

lemma eff_kottke_single:
  assumes "material_epsmu g (px_ft px) mat = Inr (eps1, inv1)"
    and "material_epsmu g (px_ft px) mat_behind = Inr (eps2, inv2)"
    and "kottke_average fill n eps1 eps2 = Inr eps"
    and "sym_matrix_invert eps = Inr minv"
    and "debug g \<longrightarrow> sym_matrix_positive_definite eps"
  shows "eff_kottke g px mat mat_behind (Some n) fill = Inr (Matrix minv)"
  using assms by (auto simp add: eff_kottke_def)

lemma material_epsmu_inverse:
  assumes "material_epsmu g ft m = Inr (eps, minv)" and "\<not> is_metal ft m"
  shows "sym_matrix_invert eps = Inr minv"
proof (cases "which_subclass m = PERFECT_METAL")
  case True
  with assms(2) have "ft = H_stuff"
    by (cases ft) (simp_all add: is_metal_def)
  with True assms(1) show ?thesis
    by (auto simp add: material_epsmu_def sym_matrix_invert_def offdiag_zero_def fdiv_def)
next
  case False
  with assms(1) show ?thesis
    by (cases "which_subclass m") (auto simp add: material_epsmu_def Let_def split: sum.splits)
qed

lemma material_epsmu_isotropic:
  assumes "which_subclass m \<noteq> PERFECT_METAL"
    and "medium_tensor (epsilon_diag (medium m)) (epsilon_offdiag (medium m)) = isotropic e"
  shows "material_epsmu g E_stuff m =
     Inr (isotropic e, \<lparr>m00 = fdiv 1 e, m01 = Fin 0, m02 = Fin 0,
                        m11 = fdiv 1 e, m12 = Fin 0, m22 = fdiv 1 e\<rparr>)"
  using assms
  by (cases "which_subclass m")
     (simp_all add: material_epsmu_def sym_matrix_invert_def offdiag_zero_def isotropic_def Let_def)

lemma isotropic_medium_not_metal:
  assumes "which_subclass m = MEDIUM"
    and "medium_tensor (epsilon_diag (medium m)) (epsilon_offdiag (medium m)) = isotropic e"
    and "0 \<le> e"
  shows "\<not> is_metal E_stuff m"
  using assms by (simp add: is_metal_def medium_tensor_def isotropic_def)

lemma unit_not_zero:
  fixes n :: vector3
  assumes "vx n * vx n + vy n * vy n + vz n * vz n = 1"
  shows "\<not> (vx n = 0 \<and> vy n = 0 \<and> vz n = 0)"
  using assms by auto

text \<open>The sample configurations on these paths.\<close>

lemma sample_pixel_fields:
  "px_maxeval (sample_pixel a b q1 q2 nrm) = 100"
  "px_ft (sample_pixel a b q1 q2 nrm) = E_stuff"
  "px_center (sample_pixel a b q1 q2 nrm) = \<lparr>vx = 3 / 20, vy = 1 / 5, vz = 0\<rparr>"
  "px_diameter (sample_pixel a b q1 q2 nrm) = 1 / 2"
  "front_found (sample_pixel a b q1 q2 nrm)"
  "front_mat (sample_pixel a b q1 q2 nrm) = a"
  "front_mat_behind (sample_pixel a b q1 q2 nrm) = b"
  "front_p_mat (sample_pixel a b q1 q2 nrm) = q1"
  "front_p_mat_behind (sample_pixel a b q1 q2 nrm) = q2"
  "surface_normal (sample_pixel a b q1 q2 nrm) = nrm"
  "box_overlap (sample_pixel a b q1 q2 nrm) = 1 / 2"
  by (simp_all add: sample_pixel_def)

lemma sample_materials_differ:
  "a \<noteq> b \<Longrightarrow> e1 \<noteq> e2 \<or> k1 \<noteq> k2 \<Longrightarrow> k1 = MEDIUM \<or> k1 = MATERIAL_GRID \<Longrightarrow>
   \<not> material_type_equal (sample_material a k1 kinds1 e1) (sample_material b k2 kinds2 e2)"
  by (auto simp add: material_type_equal_def sample_material_def medium_struct_equal_def
      vector3_equal_def iso_medium_def)

lemma sample_not_metal: "0 \<le> e \<Longrightarrow> k \<noteq> PERFECT_METAL \<Longrightarrow> \<not> is_metal E_stuff (sample_material a k kinds e)"
  by (cases k) (simp_all add: is_metal_def sample_material_def iso_medium_def)

lemma sample_is_variable_medium: "\<not> is_variable (sample_material a MEDIUM kinds e) b"
  by (simp add: is_variable_def is_material_grid_def sample_material_def)

lemma sample_is_grid: "is_material_grid (sample_material a k kinds e) = (k = MATERIAL_GRID)"
  by (simp add: is_material_grid_def sample_material_def)

lemma sample_medium_tensor:
  "medium_tensor (epsilon_diag (medium (sample_material a k kinds e)))
     (epsilon_offdiag (medium (sample_material a k kinds e))) = isotropic e"
  by (simp add: sample_material_def iso_medium_def medium_tensor_def isotropic_def czero3_def)

lemma sample_pixel_overlap_fields:
  "px_maxeval (sample_pixel a b q1 q2 nrm\<lparr>box_overlap := v\<rparr>) = 100"
  "px_ft (sample_pixel a b q1 q2 nrm\<lparr>box_overlap := v\<rparr>) = E_stuff"
  "px_center (sample_pixel a b q1 q2 nrm\<lparr>box_overlap := v\<rparr>) = \<lparr>vx = 3 / 20, vy = 1 / 5, vz = 0\<rparr>"
  "front_found (sample_pixel a b q1 q2 nrm\<lparr>box_overlap := v\<rparr>)"
  "front_mat (sample_pixel a b q1 q2 nrm\<lparr>box_overlap := v\<rparr>) = a"
  "front_mat_behind (sample_pixel a b q1 q2 nrm\<lparr>box_overlap := v\<rparr>) = b"
  "front_p_mat (sample_pixel a b q1 q2 nrm\<lparr>box_overlap := v\<rparr>) = q1"
  "front_p_mat_behind (sample_pixel a b q1 q2 nrm\<lparr>box_overlap := v\<rparr>) = q2"
  "surface_normal (sample_pixel a b q1 q2 nrm\<lparr>box_overlap := v\<rparr>) = nrm"
  "box_overlap (sample_pixel a b q1 q2 nrm\<lparr>box_overlap := v\<rparr>) = v"
  by (simp_all add: sample_pixel_def)

lemma sample_debug: "\<not> debug (sample_geom t)"
  by (simp add: sample_geom_def)

lemma eff_noavg_sample_vacuum:
  assumes "material_of_point (sample_geom t) \<lparr>vx = 3 / 20, vy = 1 / 5, vz = 0\<rparr> =
             sample_material 0 MEDIUM U_DEFAULT 1"
  shows "eff_noavg (sample_geom t) (sample_pixel a b q1 q2 nrm) =
     Inr (Matrix \<lparr>m00 = Fin 1, m01 = Fin 0, m02 = Fin 0, m11 = Fin 1, m12 = Fin 0, m22 = Fin 1\<rparr>)"
proof -
  have gm: "get_material_pt (sample_geom t) (px_center (sample_pixel a b q1 q2 nrm)) =
              Inr (sample_material 0 MEDIUM U_DEFAULT 1)"
    unfolding get_material_pt_def sample_pixel_fields assms
    by (rule eval_material_pt_medium) (rule sample_material_subclass)
  have me: "material_epsmu (sample_geom t) (px_ft (sample_pixel a b q1 q2 nrm))
              (sample_material 0 MEDIUM U_DEFAULT 1) =
      Inr (isotropic 1, \<lparr>m00 = fdiv 1 1, m01 = Fin 0, m02 = Fin 0,
                         m11 = fdiv 1 1, m12 = Fin 0, m22 = fdiv 1 1\<rparr>)"
    unfolding sample_pixel_fields by (rule material_epsmu_sample) simp
  show ?thesis
    by (simp only: eff_noavg_unfold gm me sum.case prod.case) (simp add: fdiv_def)
qed

subsection \<open>A zero surface normal\<close>

text \<open>
  Claim C7, as the code has it.  The front material is not a grid and differs from the
  material behind, also after both are evaluated; neither is a metal; the surface normal
  comes back as the zero vector.  Then \<^verbatim>\<open>eff_chi1inv_matrix\<close> takes the \<^verbatim>\<open>noavg\<close> exit: its
  result is the result of the call with averaging switched off (\<^verbatim>\<open>maxeval == 0\<close>), that is
  the inverse tensor of the material that \<^verbatim>\<open>get_material_pt\<close> finds and evaluates at the
  center of the volume, whenever that material can be evaluated and its tensor inverted;
  for a constant material at the center (\<^verbatim>\<open>MEDIUM\<close> or \<^verbatim>\<open>PERFECT_METAL\<close>) it is the tensor
  of that very material, for a user material that of the medium its function returns at
  the center.  The zero normal itself raises nothing.  The material at the center need
  not be the material of the front object.
\<close>

theorem zero_normal_disables_averaging:
  assumes zero: "vx (surface_normal px) = 0 \<and> vy (surface_normal px) = 0 \<and>
                 vz (surface_normal px) = 0"
    and run: "px_maxeval px \<noteq> 0" "front_found px"
    and nofallback: "\<not> (is_variable (front_mat px) False \<and> do_averaging (front_mat px))"
      "\<not> (is_variable (front_mat_behind px) False \<and> do_averaging (front_mat_behind px))"
    and nogrid: "\<not> is_material_grid (front_mat px)"
    and differ: "\<not> material_type_equal (front_mat px) (front_mat_behind px)"
    and ev: "eval_material_pt g (front_mat px) (front_p_mat px) = Inr mat"
      "eval_material_pt g (front_mat_behind px) (front_p_mat_behind px) = Inr mat_behind"
    and differ': "\<not> material_type_equal mat mat_behind"
    and nometal: "\<not> is_metal (px_ft px) mat" "\<not> is_metal (px_ft px) mat_behind"
    and nogrid': "\<not> is_material_grid mat"
  shows "eff_chi1inv_matrix g px = eff_noavg g px \<and>
         eff_chi1inv_matrix g px = eff_chi1inv_matrix g (px\<lparr>px_maxeval := 0\<rparr>) \<and>
         (get_material_pt g (px_center px) = Inr m \<and>
          material_epsmu g (px_ft px) m = Inr (meps, minv) \<longrightarrow>
            eff_chi1inv_matrix g px = Inr (Matrix minv)) \<and>
         (which_subclass (material_of_point g (px_center px)) = MEDIUM \<or>
          which_subclass (material_of_point g (px_center px)) = PERFECT_METAL \<longrightarrow>
            eff_chi1inv_matrix g px = eff_trivial g px (material_of_point g (px_center px))) \<and>
         (which_subclass (material_of_point g (px_center px)) = MATERIAL_USER \<and>
          offdiag_im_zero (user_material g (material_of_point g (px_center px)) (px_center px)) \<longrightarrow>
            eff_chi1inv_matrix g px =
              eff_trivial g px
                ((material_of_point g (px_center px))
                   \<lparr>medium := user_material g (material_of_point g (px_center px)) (px_center px)\<rparr>))"
proof -
  have b: "eff_chi1inv_matrix g px = eff_noavg g px"
    unfolding eff_chi1inv_matrix_two_materials [OF run nofallback nogrid differ ev differ']
    by (rule eff_average_zero_normal [OF nometal nogrid' zero])
  have c: "eff_noavg g px = eff_trivial g px (material_of_point g (px_center px))"
    if "which_subclass (material_of_point g (px_center px)) = MEDIUM \<or>
        which_subclass (material_of_point g (px_center px)) = PERFECT_METAL"
    using that by (auto simp add: eff_noavg_def get_material_pt_def eval_material_pt_def)
  have d: "eff_noavg g px =
             eff_trivial g px
               ((material_of_point g (px_center px))
                  \<lparr>medium := user_material g (material_of_point g (px_center px)) (px_center px)\<rparr>)"
    if "which_subclass (material_of_point g (px_center px)) = MATERIAL_USER \<and>
        offdiag_im_zero (user_material g (material_of_point g (px_center px)) (px_center px))"
    using that by (simp add: eff_noavg_def get_material_pt_def eval_material_pt_def Let_def)
  have e: "eff_chi1inv_matrix g px = Inr (Matrix minv)"
    if "get_material_pt g (px_center px) = Inr m \<and>
        material_epsmu g (px_ft px) m = Inr (meps, minv)"
    using that by (simp add: b eff_noavg_unfold)
  have f: "eff_chi1inv_matrix g px = eff_chi1inv_matrix g (px\<lparr>px_maxeval := 0\<rparr>)"
    by (simp add: b eff_maxeval_zero)
  from b c d e f show ?thesis
    by (simp only: b simp_thms) blast
qed

theorem zero_normal_disables_averaging_witness:
  "eff_chi1inv_matrix (sample_geom dielectric_block)
     (sample_pixel (sample_material 1 MEDIUM U_DEFAULT 12) (sample_material 0 MEDIUM U_DEFAULT 1)
        \<lparr>vx = 3 / 10, vy = 2 / 5, vz = 0\<rparr> \<lparr>vx = 3 / 20, vy = 1 / 5, vz = 0\<rparr> zero3) =
   Inr (Matrix \<lparr>m00 = Fin 1, m01 = Fin 0, m02 = Fin 0, m11 = Fin 1, m12 = Fin 0, m22 = Fin 1\<rparr>)"
proof -
  let ?g = "sample_geom dielectric_block"
  let ?a = "sample_material 1 MEDIUM U_DEFAULT 12"
  let ?b = "sample_material 0 MEDIUM U_DEFAULT 1"
  let ?px = "sample_pixel ?a ?b \<lparr>vx = 3 / 10, vy = 2 / 5, vz = 0\<rparr> \<lparr>vx = 3 / 20, vy = 1 / 5, vz = 0\<rparr> zero3"
  have zero: "vx (surface_normal ?px) = 0 \<and> vy (surface_normal ?px) = 0 \<and> vz (surface_normal ?px) = 0"
    by (simp add: sample_pixel_fields zero3_def)
  have run: "px_maxeval ?px \<noteq> 0" "front_found ?px"
    by (simp_all add: sample_pixel_fields)
  have nf: "\<not> (is_variable (front_mat ?px) False \<and> do_averaging (front_mat ?px))"
    "\<not> (is_variable (front_mat_behind ?px) False \<and> do_averaging (front_mat_behind ?px))"
    by (simp_all add: sample_pixel_fields sample_is_variable_medium)
  have ng: "\<not> is_material_grid (front_mat ?px)"
    by (simp add: sample_pixel_fields sample_is_grid)
  have df: "\<not> material_type_equal (front_mat ?px) (front_mat_behind ?px)"
    unfolding sample_pixel_fields by (rule sample_materials_differ) simp_all
  have ev: "eval_material_pt ?g (front_mat ?px) (front_p_mat ?px) = Inr ?a"
    "eval_material_pt ?g (front_mat_behind ?px) (front_p_mat_behind ?px) = Inr ?b"
    unfolding sample_pixel_fields
    by (rule eval_material_pt_medium, rule sample_material_subclass)+
  have df': "\<not> material_type_equal ?a ?b"
    by (rule sample_materials_differ) simp_all
  have nm: "\<not> is_metal (px_ft ?px) ?a" "\<not> is_metal (px_ft ?px) ?b"
    unfolding sample_pixel_fields by (rule sample_not_metal; simp)+
  have ng': "\<not> is_material_grid ?a"
    by (simp add: sample_is_grid)
  have mp: "material_of_point ?g (px_center ?px) = ?b"
    by (simp add: sample_pixel_fields sample_geom_def dielectric_block_def)
  have gm: "get_material_pt ?g (px_center ?px) = Inr ?b"
    unfolding get_material_pt_def mp
    by (rule eval_material_pt_medium) (rule sample_material_subclass)
  have me: "material_epsmu ?g (px_ft ?px) ?b =
      Inr (isotropic 1, \<lparr>m00 = fdiv 1 1, m01 = Fin 0, m02 = Fin 0,
                         m11 = fdiv 1 1, m12 = Fin 0, m22 = fdiv 1 1\<rparr>)"
    unfolding sample_pixel_fields by (rule material_epsmu_sample) simp
  note t = zero_normal_disables_averaging [OF zero run nf ng df ev df' nm ng',
      of ?b "isotropic 1" "\<lparr>m00 = fdiv 1 1, m01 = Fin 0, m02 = Fin 0,
                         m11 = fdiv 1 1, m12 = Fin 0, m22 = fdiv 1 1\<rparr>",
      THEN conjunct2, THEN conjunct2, THEN conjunct1, rule_format]
  from t [OF conjI [OF gm me]] show ?thesis
    by (simp add: fdiv_def)
qed

text \<open>The claim as the specification words it (the tensor of the frontmost material) fails
  where the center of the volume lies outside the front object: the front object has
  permittivity 12, the center lies in the vacuum behind it, and the result is the tensor
  of the vacuum, not \<open>1/12\<close>.  Evaluating the front material at the center changes
  nothing, the material being constant.\<close>

theorem zero_normal_not_front_material_counterexample:
  "eff_chi1inv_matrix (sample_geom dielectric_block)
     (sample_pixel (sample_material 1 MEDIUM U_DEFAULT 12) (sample_material 0 MEDIUM U_DEFAULT 1)
        \<lparr>vx = 3 / 10, vy = 2 / 5, vz = 0\<rparr> \<lparr>vx = 3 / 20, vy = 1 / 5, vz = 0\<rparr> zero3) =
     Inr (Matrix \<lparr>m00 = Fin 1, m01 = Fin 0, m02 = Fin 0, m11 = Fin 1, m12 = Fin 0, m22 = Fin 1\<rparr>) \<and>
   eff_trivial (sample_geom dielectric_block)
     (sample_pixel (sample_material 1 MEDIUM U_DEFAULT 12) (sample_material 0 MEDIUM U_DEFAULT 1)
        \<lparr>vx = 3 / 10, vy = 2 / 5, vz = 0\<rparr> \<lparr>vx = 3 / 20, vy = 1 / 5, vz = 0\<rparr> zero3)
     (sample_material 1 MEDIUM U_DEFAULT 12) =
     Inr (Matrix \<lparr>m00 = Fin (1 / 12), m01 = Fin 0, m02 = Fin 0,
                  m11 = Fin (1 / 12), m12 = Fin 0, m22 = Fin (1 / 12)\<rparr>) \<and>
   eval_material_pt (sample_geom dielectric_block) (sample_material 1 MEDIUM U_DEFAULT 12)
     \<lparr>vx = 3 / 20, vy = 1 / 5, vz = 0\<rparr> = Inr (sample_material 1 MEDIUM U_DEFAULT 12)"
proof -
  let ?g = "sample_geom dielectric_block"
  let ?a = "sample_material 1 MEDIUM U_DEFAULT 12"
  let ?b = "sample_material 0 MEDIUM U_DEFAULT 1"
  let ?px = "sample_pixel ?a ?b \<lparr>vx = 3 / 10, vy = 2 / 5, vz = 0\<rparr> \<lparr>vx = 3 / 20, vy = 1 / 5, vz = 0\<rparr> zero3"
  have zero: "vx (surface_normal ?px) = 0 \<and> vy (surface_normal ?px) = 0 \<and> vz (surface_normal ?px) = 0"
    by (simp add: sample_pixel_fields zero3_def)
  have run: "px_maxeval ?px \<noteq> 0" "front_found ?px"
    by (simp_all add: sample_pixel_fields)
  have med: "which_subclass (front_mat ?px) = MEDIUM" "which_subclass (front_mat_behind ?px) = MEDIUM"
    by (simp_all add: sample_pixel_fields sample_material_subclass)
  have df: "\<not> material_type_equal (front_mat ?px) (front_mat_behind ?px)"
    unfolding sample_pixel_fields by (rule sample_materials_differ) simp_all
  have nm: "\<not> is_metal (px_ft ?px) (front_mat ?px)" "\<not> is_metal (px_ft ?px) (front_mat_behind ?px)"
    unfolding sample_pixel_fields by (rule sample_not_metal; simp)+
  have ng: "\<not> is_material_grid (front_mat ?px)"
    by (simp add: sample_pixel_fields sample_is_grid)
  have mp: "material_of_point ?g \<lparr>vx = 3 / 20, vy = 1 / 5, vz = 0\<rparr> = ?b"
    by (simp add: sample_geom_def dielectric_block_def)
  have r: "eff_chi1inv_matrix ?g ?px =
     Inr (Matrix \<lparr>m00 = Fin 1, m01 = Fin 0, m02 = Fin 0, m11 = Fin 1, m12 = Fin 0, m22 = Fin 1\<rparr>)"
    unfolding eff_chi1inv_matrix_media [OF run med df] eff_average_zero_normal [OF nm ng zero]
    by (rule eff_noavg_sample_vacuum [OF mp])
  have e1: "material_epsmu ?g (px_ft ?px) ?a =
      Inr (isotropic 12, \<lparr>m00 = fdiv 1 12, m01 = Fin 0, m02 = Fin 0,
                          m11 = fdiv 1 12, m12 = Fin 0, m22 = fdiv 1 12\<rparr>)"
    unfolding sample_pixel_fields by (rule material_epsmu_sample) simp
  have t: "eff_trivial ?g ?px ?a =
     Inr (Matrix \<lparr>m00 = Fin (1 / 12), m01 = Fin 0, m02 = Fin 0,
                  m11 = Fin (1 / 12), m12 = Fin 0, m22 = Fin (1 / 12)\<rparr>)"
    by (simp only: eff_trivial_def e1 sum.case prod.case) (simp add: fdiv_def)
  have e: "eval_material_pt ?g ?a \<lparr>vx = 3 / 20, vy = 1 / 5, vz = 0\<rparr> = Inr ?a"
    by (rule eval_material_pt_medium) (rule sample_material_subclass)
  from r t e show ?thesis
    by (intro conjI)
qed

subsection \<open>Mixing at an interface\<close>

lemma mixing_means_positive:
  fixes e1 e2 f :: real
  assumes "0 < e1" and "0 < e2" and "0 \<le> f" and "f \<le> 1"
  shows "f * (- 1 / e1) + (1 - f) * (- 1 / e2) < 0" and "0 < f * e1 + (1 - f) * e2"
proof -
  have a: "0 \<le> f * (1 / e1)" "0 \<le> (1 - f) * (1 / e2)" "0 \<le> f * e1" "0 \<le> (1 - f) * e2"
    using assms by simp_all
  show "f * (- 1 / e1) + (1 - f) * (- 1 / e2) < 0"
  proof (cases "f = 0")
    case True
    with assms show ?thesis by simp
  next
    case False
    with assms have "0 < f * (1 / e1)"
      by simp
    with a(2) have "0 < f * (1 / e1) + (1 - f) * (1 / e2)"
      by linarith
    then show ?thesis
      by simp
  qed
  show "0 < f * e1 + (1 - f) * e2"
  proof (cases "f = 0")
    case True
    with assms show ?thesis by simp
  next
    case False
    with assms have "0 < f * e1"
      by simp
    with a(4) show ?thesis
      by linarith
  qed
qed

lemma eff_chi1inv_matrix_isotropic_media:
  assumes run: "px_maxeval px \<noteq> 0" "front_found px" and ft: "px_ft px = E_stuff"
    and med: "which_subclass (front_mat px) = MEDIUM" "which_subclass (front_mat_behind px) = MEDIUM"
    and iso1: "medium_tensor (epsilon_diag (medium (front_mat px)))
                 (epsilon_offdiag (medium (front_mat px))) = isotropic e1"
    and iso2: "medium_tensor (epsilon_diag (medium (front_mat_behind px)))
                 (epsilon_offdiag (medium (front_mat_behind px))) = isotropic e2"
    and pos: "0 < e1" "0 < e2"
    and differ: "\<not> material_type_equal (front_mat px) (front_mat_behind px)"
    and nz: "\<not> (vx (surface_normal px) = 0 \<and> vy (surface_normal px) = 0 \<and> vz (surface_normal px) = 0)"
    and ka: "kottke_average (box_overlap px) (surface_normal px) (isotropic e1) (isotropic e2) =
               Inr \<lparr>m00 = a, m01 = 0, m02 = 0, m11 = b, m12 = 0, m22 = c\<rparr>"
    and abc: "0 < a" "0 < b" "0 < c"
  shows "eff_chi1inv_matrix g px =
           Inr (Matrix \<lparr>m00 = Fin (1 / a), m01 = Fin 0, m02 = Fin 0,
                        m11 = Fin (1 / b), m12 = Fin 0, m22 = Fin (1 / c)\<rparr>)"
proof -
  have nm: "\<not> is_metal (px_ft px) (front_mat px)" "\<not> is_metal (px_ft px) (front_mat_behind px)"
    unfolding ft using med iso1 iso2 pos
    by (simp_all add: isotropic_medium_not_metal)
  have ng: "\<not> is_material_grid (front_mat px)"
    using med by (simp add: is_material_grid_def)
  have m1: "material_epsmu g (px_ft px) (front_mat px) =
     Inr (isotropic e1, \<lparr>m00 = fdiv 1 e1, m01 = Fin 0, m02 = Fin 0,
                        m11 = fdiv 1 e1, m12 = Fin 0, m22 = fdiv 1 e1\<rparr>)"
    unfolding ft using med iso1 by (intro material_epsmu_isotropic) simp_all
  have m2: "material_epsmu g (px_ft px) (front_mat_behind px) =
     Inr (isotropic e2, \<lparr>m00 = fdiv 1 e2, m01 = Fin 0, m02 = Fin 0,
                        m11 = fdiv 1 e2, m12 = Fin 0, m22 = fdiv 1 e2\<rparr>)"
    unfolding ft using med iso2 by (intro material_epsmu_isotropic) simp_all
  show ?thesis
    unfolding eff_chi1inv_matrix_media [OF run med differ] eff_average_kottke [OF nm ng nz]
    by (rule eff_kottke_diagonal [OF m1 m2 ka abc])
qed

text \<open>
  Claim C1, for the materials that the routine averages.  Two constant materials with
  isotropic permittivities \<open>e1 > 0\<close> in front and \<open>e2 > 0\<close> behind, not equal as materials,
  a unit surface normal along a coordinate axis (either sign) and a fill fraction \<open>f\<close>
  between 0 and 1: the tensor that \<^verbatim>\<open>eff_chi1inv_matrix\<close> averages has
  \<open>h = - 1 / (f * (- 1 / e1) + (1 - f) * (- 1 / e2))\<close> on the diagonal at the axis of the
  normal, \<open>a = f * e1 + (1 - f) * e2\<close> at the two other diagonal places and zero
  off-diagonal entries, and the routine returns the inverse of that tensor, \<open>1 / h\<close> and
  \<open>1 / a\<close> at the same places.
\<close>

theorem eff_chi1inv_matrix_isotropic_axis_normal:
  assumes run: "px_maxeval px \<noteq> 0" "front_found px" and ft: "px_ft px = E_stuff"
    and med: "which_subclass (front_mat px) = MEDIUM" "which_subclass (front_mat_behind px) = MEDIUM"
    and iso1: "medium_tensor (epsilon_diag (medium (front_mat px)))
                 (epsilon_offdiag (medium (front_mat px))) = isotropic e1"
    and iso2: "medium_tensor (epsilon_diag (medium (front_mat_behind px)))
                 (epsilon_offdiag (medium (front_mat_behind px))) = isotropic e2"
    and pos: "0 < e1" "0 < e2"
    and differ: "\<not> material_type_equal (front_mat px) (front_mat_behind px)"
    and fill: "box_overlap px = f" "0 \<le> f" "f \<le> 1"
    and axis: "s = 1 \<or> s = - 1"
    and hd: "h = - 1 / (f * (- 1 / e1) + (1 - f) * (- 1 / e2))"
    and ad: "a = f * e1 + (1 - f) * e2"
  shows "(surface_normal px = \<lparr>vx = s, vy = 0, vz = 0\<rparr> \<longrightarrow>
            kottke_average f (surface_normal px) (isotropic e1) (isotropic e2) =
              Inr \<lparr>m00 = h, m01 = 0, m02 = 0, m11 = a, m12 = 0, m22 = a\<rparr> \<and>
            eff_chi1inv_matrix g px =
              Inr (Matrix \<lparr>m00 = Fin (1 / h), m01 = Fin 0, m02 = Fin 0,
                           m11 = Fin (1 / a), m12 = Fin 0, m22 = Fin (1 / a)\<rparr>)) \<and>
         (surface_normal px = \<lparr>vx = 0, vy = s, vz = 0\<rparr> \<longrightarrow>
            kottke_average f (surface_normal px) (isotropic e1) (isotropic e2) =
              Inr \<lparr>m00 = a, m01 = 0, m02 = 0, m11 = h, m12 = 0, m22 = a\<rparr> \<and>
            eff_chi1inv_matrix g px =
              Inr (Matrix \<lparr>m00 = Fin (1 / a), m01 = Fin 0, m02 = Fin 0,
                           m11 = Fin (1 / h), m12 = Fin 0, m22 = Fin (1 / a)\<rparr>)) \<and>
         (surface_normal px = \<lparr>vx = 0, vy = 0, vz = s\<rparr> \<longrightarrow>
            kottke_average f (surface_normal px) (isotropic e1) (isotropic e2) =
              Inr \<lparr>m00 = a, m01 = 0, m02 = 0, m11 = a, m12 = 0, m22 = h\<rparr> \<and>
            eff_chi1inv_matrix g px =
              Inr (Matrix \<lparr>m00 = Fin (1 / a), m01 = Fin 0, m02 = Fin 0,
                           m11 = Fin (1 / a), m12 = Fin 0, m22 = Fin (1 / h)\<rparr>))"
proof -
  have d: "f * (- 1 / e1) + (1 - f) * (- 1 / e2) < 0" and apos: "0 < a"
    unfolding ad using mixing_means_positive [OF pos fill(2,3)] by simp_all
  have hpos: "0 < h"
    unfolding hd using d by (simp add: field_simps)
  have e: "e1 \<noteq> 0" "e2 \<noteq> 0" "f * (- 1 / e1) + (1 - f) * (- 1 / e2) \<noteq> 0"
    using pos d by simp_all
  note ka = kottke_average_isotropic_axis [OF e axis, folded hd ad]
  have s0: "s \<noteq> 0"
    using axis by auto
  {
    assume n: "surface_normal px = \<lparr>vx = s, vy = 0, vz = 0\<rparr>"
    have k: "kottke_average (box_overlap px) (surface_normal px) (isotropic e1) (isotropic e2) =
              Inr \<lparr>m00 = h, m01 = 0, m02 = 0, m11 = a, m12 = 0, m22 = a\<rparr>"
      unfolding n fill(1) by (rule ka [THEN conjunct1])
    have nz: "\<not> (vx (surface_normal px) = 0 \<and> vy (surface_normal px) = 0 \<and> vz (surface_normal px) = 0)"
      using n s0 by simp
    note k [unfolded fill(1)]
      eff_chi1inv_matrix_isotropic_media [OF run ft med iso1 iso2 pos differ nz k hpos apos apos, of g]
  }
  moreover
  {
    assume n: "surface_normal px = \<lparr>vx = 0, vy = s, vz = 0\<rparr>"
    have k: "kottke_average (box_overlap px) (surface_normal px) (isotropic e1) (isotropic e2) =
              Inr \<lparr>m00 = a, m01 = 0, m02 = 0, m11 = h, m12 = 0, m22 = a\<rparr>"
      unfolding n fill(1) by (rule ka [THEN conjunct2, THEN conjunct1])
    have nz: "\<not> (vx (surface_normal px) = 0 \<and> vy (surface_normal px) = 0 \<and> vz (surface_normal px) = 0)"
      using n s0 by simp
    note k [unfolded fill(1)]
      eff_chi1inv_matrix_isotropic_media [OF run ft med iso1 iso2 pos differ nz k apos hpos apos, of g]
  }
  moreover
  {
    assume n: "surface_normal px = \<lparr>vx = 0, vy = 0, vz = s\<rparr>"
    have k: "kottke_average (box_overlap px) (surface_normal px) (isotropic e1) (isotropic e2) =
              Inr \<lparr>m00 = a, m01 = 0, m02 = 0, m11 = a, m12 = 0, m22 = h\<rparr>"
      unfolding n fill(1) by (rule ka [THEN conjunct2, THEN conjunct2])
    have nz: "\<not> (vx (surface_normal px) = 0 \<and> vy (surface_normal px) = 0 \<and> vz (surface_normal px) = 0)"
      using n s0 by simp
    note k [unfolded fill(1)]
      eff_chi1inv_matrix_isotropic_media [OF run ft med iso1 iso2 pos differ nz k apos apos hpos, of g]
  }
  ultimately show ?thesis
    by blast
qed

theorem eff_chi1inv_matrix_isotropic_axis_normal_witness:
  "kottke_average (1 / 2) \<lparr>vx = 1, vy = 0, vz = 0\<rparr> (isotropic 12) (isotropic 1) =
     Inr \<lparr>m00 = 24 / 13, m01 = 0, m02 = 0, m11 = 13 / 2, m12 = 0, m22 = 13 / 2\<rparr> \<and>
   eff_chi1inv_matrix (sample_geom dielectric_block)
     (sample_pixel (sample_material 1 MEDIUM U_DEFAULT 12) (sample_material 0 MEDIUM U_DEFAULT 1)
        \<lparr>vx = 3 / 10, vy = 2 / 5, vz = 0\<rparr> \<lparr>vx = 3 / 20, vy = 1 / 5, vz = 0\<rparr>
        \<lparr>vx = 1, vy = 0, vz = 0\<rparr>) =
     Inr (Matrix \<lparr>m00 = Fin (13 / 24), m01 = Fin 0, m02 = Fin 0,
                  m11 = Fin (2 / 13), m12 = Fin 0, m22 = Fin (2 / 13)\<rparr>)"
proof -
  let ?g = "sample_geom dielectric_block"
  let ?a = "sample_material 1 MEDIUM U_DEFAULT 12"
  let ?b = "sample_material 0 MEDIUM U_DEFAULT 1"
  let ?px = "sample_pixel ?a ?b \<lparr>vx = 3 / 10, vy = 2 / 5, vz = 0\<rparr> \<lparr>vx = 3 / 20, vy = 1 / 5, vz = 0\<rparr>
        \<lparr>vx = 1, vy = 0, vz = 0\<rparr>"
  have run: "px_maxeval ?px \<noteq> 0" "front_found ?px" and ft: "px_ft ?px = E_stuff"
    by (simp_all add: sample_pixel_fields)
  have med: "which_subclass (front_mat ?px) = MEDIUM" "which_subclass (front_mat_behind ?px) = MEDIUM"
    by (simp_all add: sample_pixel_fields sample_material_subclass)
  have iso1: "medium_tensor (epsilon_diag (medium (front_mat ?px)))
                 (epsilon_offdiag (medium (front_mat ?px))) = isotropic 12"
    unfolding sample_pixel_fields by (rule sample_medium_tensor)
  have iso2: "medium_tensor (epsilon_diag (medium (front_mat_behind ?px)))
                 (epsilon_offdiag (medium (front_mat_behind ?px))) = isotropic 1"
    unfolding sample_pixel_fields by (rule sample_medium_tensor)
  have df: "\<not> material_type_equal (front_mat ?px) (front_mat_behind ?px)"
    unfolding sample_pixel_fields by (rule sample_materials_differ) simp_all
  have fill: "box_overlap ?px = 1 / 2" "(0::real) \<le> 1 / 2" "(1 / 2 :: real) \<le> 1"
    by (simp_all add: sample_pixel_fields)
  have pos: "(0::real) < 12" "(0::real) < 1"
    by simp_all
  have ax: "(1::real) = 1 \<or> (1::real) = - 1"
    by simp
  have hd: "(24 / 13 :: real) = - 1 / (1 / 2 * (- 1 / 12) + (1 - 1 / 2) * (- 1 / 1))"
    by simp
  have ad: "(13 / 2 :: real) = 1 / 2 * 12 + (1 - 1 / 2) * 1"
    by simp
  have n: "surface_normal ?px = \<lparr>vx = 1, vy = 0, vz = 0\<rparr>"
    by (simp add: sample_pixel_fields)
  from eff_chi1inv_matrix_isotropic_axis_normal
         [OF run ft med iso1 iso2 pos df fill ax hd ad, of ?g, THEN conjunct1, rule_format, OF n]
  show ?thesis
    unfolding n by simp
qed

text \<open>The claim as the specification words it (every pair of scalar permittivities) fails
  for a negative permittivity: \<^verbatim>\<open>is_metal\<close> sends the routine to \<^verbatim>\<open>noavg\<close>.  With \<open>e1 = - 2\<close>,
  \<open>e2 = 1\<close>, \<open>f = 1 / 2\<close> and the normal along \<open>x\<close> the result is the tensor of the vacuum at
  the center, not the inverse \<open>(1 / 4, - 2, - 2)\<close> of the tensor of the formulas.\<close>

theorem eff_chi1inv_matrix_metal_counterexample:
  "eff_chi1inv_matrix (sample_geom negative_strip)
     (sample_pixel (sample_material 2 MEDIUM U_DEFAULT (- 2)) (sample_material 0 MEDIUM U_DEFAULT 1)
        zero3 \<lparr>vx = 3 / 20, vy = 1 / 5, vz = 0\<rparr> \<lparr>vx = 1, vy = 0, vz = 0\<rparr>) =
     Inr (Matrix \<lparr>m00 = Fin 1, m01 = Fin 0, m02 = Fin 0, m11 = Fin 1, m12 = Fin 0, m22 = Fin 1\<rparr>) \<and>
   sym_matrix_invert
     \<lparr>m00 = - 1 / (1 / 2 * (- 1 / (- 2)) + (1 - 1 / 2) * (- 1 / 1)), m01 = 0, m02 = 0,
      m11 = 1 / 2 * (- 2) + (1 - 1 / 2) * 1, m12 = 0, m22 = 1 / 2 * (- 2) + (1 - 1 / 2) * 1\<rparr> =
     Inr \<lparr>m00 = Fin (1 / 4), m01 = Fin 0, m02 = Fin 0,
          m11 = Fin (- 2), m12 = Fin 0, m22 = Fin (- 2)\<rparr>"
proof
  let ?g = "sample_geom negative_strip"
  let ?a = "sample_material 2 MEDIUM U_DEFAULT (- 2)"
  let ?b = "sample_material 0 MEDIUM U_DEFAULT 1"
  let ?px = "sample_pixel ?a ?b zero3 \<lparr>vx = 3 / 20, vy = 1 / 5, vz = 0\<rparr> \<lparr>vx = 1, vy = 0, vz = 0\<rparr>"
  have run: "px_maxeval ?px \<noteq> 0" "front_found ?px"
    by (simp_all add: sample_pixel_fields)
  have med: "which_subclass (front_mat ?px) = MEDIUM" "which_subclass (front_mat_behind ?px) = MEDIUM"
    by (simp_all add: sample_pixel_fields sample_material_subclass)
  have df: "\<not> material_type_equal (front_mat ?px) (front_mat_behind ?px)"
    unfolding sample_pixel_fields by (rule sample_materials_differ) simp_all
  have metal: "is_metal (px_ft ?px) (front_mat ?px) \<or> is_metal (px_ft ?px) (front_mat_behind ?px)"
    by (simp add: sample_pixel_fields is_metal_def sample_material_def iso_medium_def)
  have mp: "material_of_point ?g \<lparr>vx = 3 / 20, vy = 1 / 5, vz = 0\<rparr> = ?b"
    by (simp add: sample_geom_def negative_strip_def)
  show "eff_chi1inv_matrix ?g ?px =
     Inr (Matrix \<lparr>m00 = Fin 1, m01 = Fin 0, m02 = Fin 0, m11 = Fin 1, m12 = Fin 0, m22 = Fin 1\<rparr>)"
    unfolding eff_chi1inv_matrix_media [OF run med df] eff_average_metal [OF metal]
    by (rule eff_noavg_sample_vacuum [OF mp])
next
  show "sym_matrix_invert
     \<lparr>m00 = - 1 / (1 / 2 * (- 1 / (- 2)) + (1 - 1 / 2) * (- 1 / 1)), m01 = 0, m02 = 0,
      m11 = 1 / 2 * (- 2) + (1 - 1 / 2) * 1, m12 = 0, m22 = 1 / 2 * (- 2) + (1 - 1 / 2) * 1\<rparr> =
     Inr \<lparr>m00 = Fin (1 / 4), m01 = Fin 0, m02 = Fin 0,
          m11 = Fin (- 2), m12 = Fin 0, m22 = Fin (- 2)\<rparr>"
    by (simp add: sym_matrix_invert_def offdiag_zero_def fdiv_def)
qed

text \<open>
  Claim C3, as the code has it.  Two materials that the routine mixes (the front one not
  a grid, different before and after evaluation, neither a metal), a unit surface normal
  and tensors whose components along the normal are not zero; in a build with \<^verbatim>\<open>DEBUG\<close>
  the two tensors are positive definite.  With fill fraction exactly 1 the mixing returns
  the tensor of the front material and the routine its inverse, which is what the label
  \<^verbatim>\<open>trivial\<close> gives for that material alone; with fill fraction exactly 0 the same holds
  for the material behind.  This is so for the rest of the routine from the mixing on
  (\<open>eff_kottke\<close>), whichever way the fill fraction was found, and for the whole routine
  when the fill fraction is the overlap of the pixel with the front object.
\<close>

theorem eff_chi1inv_matrix_fill_zero_or_one:
  assumes run: "px_maxeval px \<noteq> 0" "front_found px"
    and nofallback: "\<not> (is_variable (front_mat px) False \<and> do_averaging (front_mat px))"
      "\<not> (is_variable (front_mat_behind px) False \<and> do_averaging (front_mat_behind px))"
    and nogrid: "\<not> is_material_grid (front_mat px)"
    and differ: "\<not> material_type_equal (front_mat px) (front_mat_behind px)"
    and ev: "eval_material_pt g (front_mat px) (front_p_mat px) = Inr mat"
      "eval_material_pt g (front_mat_behind px) (front_p_mat_behind px) = Inr mat_behind"
    and differ': "\<not> material_type_equal mat mat_behind"
    and nometal: "\<not> is_metal (px_ft px) mat" "\<not> is_metal (px_ft px) mat_behind"
    and nogrid': "\<not> is_material_grid mat"
    and nrm: "surface_normal px = n"
    and unit: "vx n * vx n + vy n * vy n + vz n * vz n = 1"
    and eps: "material_epsmu g (px_ft px) mat = Inr (eps1, inv1)"
      "material_epsmu g (px_ft px) mat_behind = Inr (eps2, inv2)"
    and n1: "normal_component n eps1 \<noteq> 0" and n2: "normal_component n eps2 \<noteq> 0"
    and dbg: "debug g \<longrightarrow> sym_matrix_positive_definite eps1 \<and> sym_matrix_positive_definite eps2"
  shows "kottke_average 1 n eps1 eps2 = Inr eps1 \<and> kottke_average 0 n eps1 eps2 = Inr eps2 \<and>
         eff_trivial g px mat = Inr (Matrix inv1) \<and>
         eff_trivial g px mat_behind = Inr (Matrix inv2) \<and>
         eff_kottke g px mat mat_behind (Some n) 1 = Inr (Matrix inv1) \<and>
         eff_kottke g px mat mat_behind (Some n) 0 = Inr (Matrix inv2) \<and>
         (box_overlap px = 1 \<longrightarrow> eff_chi1inv_matrix g px = Inr (Matrix inv1)) \<and>
         (box_overlap px = 0 \<longrightarrow> eff_chi1inv_matrix g px = Inr (Matrix inv2))"
proof -
  note k = kottke_average_fill_zero_or_one [OF unit n1 n2]
  have i1: "sym_matrix_invert eps1 = Inr inv1"
    by (rule material_epsmu_inverse [OF eps(1) nometal(1)])
  have i2: "sym_matrix_invert eps2 = Inr inv2"
    by (rule material_epsmu_inverse [OF eps(2) nometal(2)])
  have nz: "\<not> (vx (surface_normal px) = 0 \<and> vy (surface_normal px) = 0 \<and> vz (surface_normal px) = 0)"
    unfolding nrm by (rule unit_not_zero [OF unit])
  have a: "eff_chi1inv_matrix g px =
             eff_kottke g px mat mat_behind (Some n) (box_overlap px)"
    unfolding eff_chi1inv_matrix_two_materials [OF run nofallback nogrid differ ev differ']
      eff_average_kottke [OF nometal nogrid' nz] nrm ..
  have k1: "eff_kottke g px mat mat_behind (Some n) 1 = Inr (Matrix inv1)"
    by (rule eff_kottke_single [OF eps k [THEN conjunct1] i1]) (use dbg in simp)
  have k0: "eff_kottke g px mat mat_behind (Some n) 0 = Inr (Matrix inv2)"
    by (rule eff_kottke_single [OF eps k [THEN conjunct2] i2]) (use dbg in simp)
  have one: "eff_chi1inv_matrix g px = Inr (Matrix inv1)" if "box_overlap px = 1"
    unfolding a that by (rule k1)
  have zero: "eff_chi1inv_matrix g px = Inr (Matrix inv2)" if "box_overlap px = 0"
    unfolding a that by (rule k0)
  have t: "eff_trivial g px mat = Inr (Matrix inv1)" "eff_trivial g px mat_behind = Inr (Matrix inv2)"
    by (simp_all add: eff_trivial_def eps)
  from k one zero t k1 k0 show ?thesis
    by blast
qed

theorem eff_chi1inv_matrix_fill_zero_or_one_witness:
  "eff_chi1inv_matrix (sample_geom dielectric_block)
     (sample_pixel (sample_material 1 MEDIUM U_DEFAULT 12) (sample_material 0 MEDIUM U_DEFAULT 1)
        \<lparr>vx = 3 / 10, vy = 2 / 5, vz = 0\<rparr> \<lparr>vx = 3 / 20, vy = 1 / 5, vz = 0\<rparr>
        \<lparr>vx = 3 / 5, vy = 4 / 5, vz = 0\<rparr>\<lparr>box_overlap := 1\<rparr>) =
     Inr (Matrix \<lparr>m00 = Fin (1 / 12), m01 = Fin 0, m02 = Fin 0,
                  m11 = Fin (1 / 12), m12 = Fin 0, m22 = Fin (1 / 12)\<rparr>) \<and>
   eff_chi1inv_matrix (sample_geom dielectric_block)
     (sample_pixel (sample_material 1 MEDIUM U_DEFAULT 12) (sample_material 0 MEDIUM U_DEFAULT 1)
        \<lparr>vx = 3 / 10, vy = 2 / 5, vz = 0\<rparr> \<lparr>vx = 3 / 20, vy = 1 / 5, vz = 0\<rparr>
        \<lparr>vx = 3 / 5, vy = 4 / 5, vz = 0\<rparr>\<lparr>box_overlap := 0\<rparr>) =
     Inr (Matrix \<lparr>m00 = Fin 1, m01 = Fin 0, m02 = Fin 0,
                  m11 = Fin 1, m12 = Fin 0, m22 = Fin 1\<rparr>)"
proof -
  let ?g = "sample_geom dielectric_block"
  let ?a = "sample_material 1 MEDIUM U_DEFAULT 12"
  let ?b = "sample_material 0 MEDIUM U_DEFAULT 1"
  let ?n = "\<lparr>vx = 3 / 5, vy = 4 / 5, vz = 0\<rparr> :: vector3"
  let ?i1 = "\<lparr>m00 = fdiv 1 12, m01 = Fin 0, m02 = Fin 0,
              m11 = fdiv 1 12, m12 = Fin 0, m22 = fdiv 1 12\<rparr>"
  let ?i2 = "\<lparr>m00 = fdiv 1 1, m01 = Fin 0, m02 = Fin 0,
              m11 = fdiv 1 1, m12 = Fin 0, m22 = fdiv 1 1\<rparr>"
  have unit: "vx ?n * vx ?n + vy ?n * vy ?n + vz ?n * vz ?n = 1"
    by simp
  have n1: "normal_component ?n (isotropic 12) \<noteq> 0" and n2: "normal_component ?n (isotropic 1) \<noteq> 0"
    by (simp_all add: normal_component_def isotropic_def)
  have dbg: "debug ?g \<longrightarrow>
      sym_matrix_positive_definite (isotropic 12) \<and> sym_matrix_positive_definite (isotropic 1)"
    by (simp add: sample_debug)
  have df: "\<not> material_type_equal ?a ?b"
    by (rule sample_materials_differ) simp_all
  have nm: "\<not> is_metal E_stuff ?a" "\<not> is_metal E_stuff ?b"
    by (rule sample_not_metal; simp)+
  have ng: "\<not> is_material_grid ?a"
    by (simp add: sample_is_grid)
  have nf: "\<not> (is_variable ?a False \<and> do_averaging ?a)" "\<not> (is_variable ?b False \<and> do_averaging ?b)"
    by (simp_all add: sample_is_variable_medium)
  have ev: "eval_material_pt ?g ?a \<lparr>vx = 3 / 10, vy = 2 / 5, vz = 0\<rparr> = Inr ?a"
    "eval_material_pt ?g ?b \<lparr>vx = 3 / 20, vy = 1 / 5, vz = 0\<rparr> = Inr ?b"
    by (rule eval_material_pt_medium, rule sample_material_subclass)+
  have e1: "material_epsmu ?g E_stuff ?a = Inr (isotropic 12, ?i1)"
    by (rule material_epsmu_sample) simp
  have e2: "material_epsmu ?g E_stuff ?b = Inr (isotropic 1, ?i2)"
    by (rule material_epsmu_sample) simp
  have t: "box_overlap px = v \<Longrightarrow> px_maxeval px \<noteq> 0 \<Longrightarrow> front_found px \<Longrightarrow> px_ft px = E_stuff \<Longrightarrow>
      front_mat px = ?a \<Longrightarrow> front_mat_behind px = ?b \<Longrightarrow>
      front_p_mat px = \<lparr>vx = 3 / 10, vy = 2 / 5, vz = 0\<rparr> \<Longrightarrow>
      front_p_mat_behind px = \<lparr>vx = 3 / 20, vy = 1 / 5, vz = 0\<rparr> \<Longrightarrow>
      surface_normal px = ?n \<Longrightarrow>
      (v = 1 \<longrightarrow> eff_chi1inv_matrix ?g px = Inr (Matrix ?i1)) \<and>
      (v = 0 \<longrightarrow> eff_chi1inv_matrix ?g px = Inr (Matrix ?i2))" for px v
    using eff_chi1inv_matrix_fill_zero_or_one
      [of px ?g ?a ?b ?n "isotropic 12" ?i1 "isotropic 1" ?i2]
      unit n1 n2 dbg df nm ng nf ev e1 e2
    by simp
  show ?thesis
    using t [of "sample_pixel ?a ?b \<lparr>vx = 3 / 10, vy = 2 / 5, vz = 0\<rparr>
                  \<lparr>vx = 3 / 20, vy = 1 / 5, vz = 0\<rparr> ?n\<lparr>box_overlap := 1\<rparr>" 1]
          t [of "sample_pixel ?a ?b \<lparr>vx = 3 / 10, vy = 2 / 5, vz = 0\<rparr>
                  \<lparr>vx = 3 / 20, vy = 1 / 5, vz = 0\<rparr> ?n\<lparr>box_overlap := 0\<rparr>" 0]
    by (simp add: sample_pixel_overlap_fields fdiv_def)
qed

lemma kottke_average_zero_component:
  "kottke_average 1 \<lparr>vx = 1, vy = 0, vz = 0\<rparr> (isotropic 12) (isotropic 0) = Inl Non_finite"
proof -
  have s: "(1::real) = 1 \<or> (1::real) = - 1"
    by simp
  show ?thesis
    by (simp only: kottke_average_def kottke_rotation_x [OF s] rotate_isotropic_x [OF s] sum.case)
       (simp add: kottke_mixing_def isotropic_def)
qed

text \<open>The claim as the specification words it (every pair of tensors) fails for a tensor
  whose component along the normal is zero: with fill fraction 1, permittivity 12 in front
  and permittivity 0 behind, the mixing computes \<open>0 * (- 1 / 0)\<close>, which is not a number,
  and the result is not the tensor \<open>1/12\<close> of the front material.\<close>

theorem eff_chi1inv_matrix_fill_one_counterexample:
  "eff_chi1inv_matrix (sample_geom zero_backing)
     (sample_pixel (sample_material 1 MEDIUM U_DEFAULT 12) (sample_material 5 MEDIUM U_DEFAULT 0)
        \<lparr>vx = 3 / 10, vy = 2 / 5, vz = 0\<rparr> \<lparr>vx = 3 / 20, vy = 1 / 5, vz = 0\<rparr>
        \<lparr>vx = 1, vy = 0, vz = 0\<rparr>\<lparr>box_overlap := 1\<rparr>) = Inl Non_finite \<and>
   eff_trivial (sample_geom zero_backing)
     (sample_pixel (sample_material 1 MEDIUM U_DEFAULT 12) (sample_material 5 MEDIUM U_DEFAULT 0)
        \<lparr>vx = 3 / 10, vy = 2 / 5, vz = 0\<rparr> \<lparr>vx = 3 / 20, vy = 1 / 5, vz = 0\<rparr>
        \<lparr>vx = 1, vy = 0, vz = 0\<rparr>\<lparr>box_overlap := 1\<rparr>)
     (sample_material 1 MEDIUM U_DEFAULT 12) =
     Inr (Matrix \<lparr>m00 = Fin (1 / 12), m01 = Fin 0, m02 = Fin 0,
                  m11 = Fin (1 / 12), m12 = Fin 0, m22 = Fin (1 / 12)\<rparr>) \<and>
   kottke_average 1 \<lparr>vx = 1, vy = 0, vz = 0\<rparr> (isotropic 12) (isotropic 0) = Inl Non_finite"
proof -
  let ?g = "sample_geom zero_backing"
  let ?a = "sample_material 1 MEDIUM U_DEFAULT 12"
  let ?b = "sample_material 5 MEDIUM U_DEFAULT 0"
  let ?px = "sample_pixel ?a ?b \<lparr>vx = 3 / 10, vy = 2 / 5, vz = 0\<rparr> \<lparr>vx = 3 / 20, vy = 1 / 5, vz = 0\<rparr>
        \<lparr>vx = 1, vy = 0, vz = 0\<rparr>\<lparr>box_overlap := 1\<rparr>"
  have run: "px_maxeval ?px \<noteq> 0" "front_found ?px"
    by (simp_all add: sample_pixel_overlap_fields)
  have med: "which_subclass (front_mat ?px) = MEDIUM" "which_subclass (front_mat_behind ?px) = MEDIUM"
    by (simp_all add: sample_pixel_overlap_fields sample_material_subclass)
  have df: "\<not> material_type_equal (front_mat ?px) (front_mat_behind ?px)"
    unfolding sample_pixel_overlap_fields by (rule sample_materials_differ) simp_all
  have nm: "\<not> is_metal (px_ft ?px) (front_mat ?px)" "\<not> is_metal (px_ft ?px) (front_mat_behind ?px)"
    unfolding sample_pixel_overlap_fields by (rule sample_not_metal; simp)+
  have ng: "\<not> is_material_grid (front_mat ?px)"
    by (simp add: sample_pixel_overlap_fields sample_is_grid)
  have nz: "\<not> (vx (surface_normal ?px) = 0 \<and> vy (surface_normal ?px) = 0 \<and> vz (surface_normal ?px) = 0)"
    by (simp add: sample_pixel_overlap_fields)
  have e1: "material_epsmu ?g (px_ft ?px) ?a =
      Inr (isotropic 12, \<lparr>m00 = fdiv 1 12, m01 = Fin 0, m02 = Fin 0,
                          m11 = fdiv 1 12, m12 = Fin 0, m22 = fdiv 1 12\<rparr>)"
    unfolding sample_pixel_overlap_fields by (rule material_epsmu_sample) simp
  have e2: "material_epsmu ?g (px_ft ?px) ?b =
      Inr (isotropic 0, \<lparr>m00 = fdiv 1 0, m01 = Fin 0, m02 = Fin 0,
                         m11 = fdiv 1 0, m12 = Fin 0, m22 = fdiv 1 0\<rparr>)"
    unfolding sample_pixel_overlap_fields by (rule material_epsmu_sample) simp
  have k: "eff_kottke ?g ?px ?a ?b (Some \<lparr>vx = 1, vy = 0, vz = 0\<rparr>) 1 = Inl Non_finite"
    by (simp only: eff_kottke_def e1 e2 sum.case prod.case option.case kottke_average_zero_component)
  have "eff_chi1inv_matrix ?g ?px = Inl Non_finite"
    unfolding eff_chi1inv_matrix_media [OF run med df] eff_average_kottke [OF nm ng nz]
    unfolding sample_pixel_overlap_fields using k by simp
  moreover have "eff_trivial ?g ?px ?a =
     Inr (Matrix \<lparr>m00 = Fin (1 / 12), m01 = Fin 0, m02 = Fin 0,
                  m11 = Fin (1 / 12), m12 = Fin 0, m22 = Fin (1 / 12)\<rparr>)"
    by (simp only: eff_trivial_def e1 sum.case prod.case) (simp add: fdiv_def)
  ultimately show ?thesis
    using kottke_average_zero_component by simp
qed


subsection \<open>The fill fraction of a density grid\<close>

text \<open>What \<^verbatim>\<open>get_material_grid_fill\<close> returns on either side of the test, and the exit of
  \<^verbatim>\<open>eff_chi1inv_matrix\<close> for a grid that equals the material behind it and needs no
  averaging: the grid evaluated at the center, as one material.\<close>

lemma get_material_grid_fill_far:
  "\<bar>d\<bar> > \<bar>r\<bar> \<Longrightarrow> get_material_grid_fill dm (Fin d) r u \<eta> = Inr (- 1, False)"
  by (simp add: get_material_grid_fill_def)

lemma get_material_grid_fill_near:
  "\<not> \<bar>d\<bar> > \<bar>r\<bar> \<Longrightarrow> r \<noteq> 0 \<Longrightarrow>
   get_material_grid_fill dm (Fin d) r u \<eta> =
     Inr (let rel_fill =
                (case dm of
                   D1 \<Rightarrow> (r - d) / (2 * r)
                 | D2 \<Rightarrow> (1 / (r * r * pi)) * (r * r * arccos (d / r) - d * sqrt (r * r - d * d))
                 | Dcyl \<Rightarrow> (1 / (r * r * pi)) * (r * r * arccos (d / r) - d * sqrt (r * r - d * d))
                 | D3 \<Rightarrow> (((r - d) * (r - d)) / (4 * pi * r * r * r)) * (2 * r + d))
          in (if u \<le> \<eta> then rel_fill else 1 - rel_fill, True))"
  by (simp add: get_material_grid_fill_def Let_def)

lemma grid_fill_half_space:
  "get_material_grid_fill D1 (Fin 0) 1 0 (1 / 2) = Inr (1 / 2, True) \<and>
   get_material_grid_fill D2 (Fin 0) 1 0 (1 / 2) = Inr (1 / 2, True) \<and>
   get_material_grid_fill D3 (Fin 0) 1 0 (1 / 2) = Inr (1 / (2 * pi), True)"
  by (simp add: get_material_grid_fill_def Let_def)

lemma grid_block_center:
  "restricted_tree (sample_geom grid_block) \<lparr>vx = 3 / 20, vy = 1 / 5, vz = 0\<rparr> =
     [sample_entry 4 U_DEFAULT]"
  by (simp add: sample_geom_def grid_block_def)

lemma sample_grid_val:
  "matgrid_val (sample_geom t) p [sample_entry 4 U_DEFAULT]
     (sample_material 4 MATERIAL_GRID U_DEFAULT e) = Inr (1 / 5)"
  by (simp add: matgrid_val_def sample_kinds material_grid_val_entry [OF sample_entry_grid]
      sample_entry_val Let_def)

lemma sample_grid_grad:
  "matgrid_grad (sample_geom t) p [sample_entry 4 U_DEFAULT]
     (sample_material 4 MATERIAL_GRID U_DEFAULT e) = Inr \<lparr>vx = 1 / 4, vy = 0, vz = 0\<rparr>"
proof -
  have "material_grid_grad (sample_geom t) q (gbo_material (sample_entry 4 U_DEFAULT)) ob =
          Inr \<lparr>vx = 1 / 4, vy = 0, vz = 0\<rparr>" for q ob
    by (simp add: material_grid_grad_def sample_entry_grid)
       (simp add: sample_geom_def sample_entry_def sample_material_def)
  then show ?thesis
    by (simp add: matgrid_grad_def sample_kinds vector3_plus_def)
qed

lemma vec_abs_quarter: "vec_abs \<lparr>vx = 1 / 4, vy = 0, vz = 0\<rparr> = 1 / 4"
proof -
  have "sqrt ((1 / 4) * (1 / 4)) = \<bar>1 / 4 :: real\<bar>"
    by (rule real_sqrt_abs2)
  then show ?thesis
    by (simp add: vec_abs_def)
qed

lemma sample_grid_interface:
  "grid_interface (sample_geom grid_block)
     (sample_pixel a b q1 q2 nrm) (sample_material 4 MATERIAL_GRID U_DEFAULT e) =
   Inr (Some \<lparr>vx = 1, vy = 0, vz = 0\<rparr>, - 1, False)"
proof -
  have e: "eta (sample_material 4 MATERIAL_GRID U_DEFAULT e) = 1 / 2"
    by (simp add: sample_material_def)
  have u: "u_p (sample_geom grid_block) = 0"
    by (simp add: sample_geom_def)
  show ?thesis
    by (simp add: grid_interface_def sample_pixel_fields grid_block_center sample_grid_grad
        sample_grid_val e u sample_dim vec_abs_quarter fdiv_def ext_scale_def vector3_scale_def
        get_material_grid_fill_def Let_def)
qed


lemma grid_far_from_threshold_single_material:
  assumes "px_maxeval px \<noteq> 0" and "is_material_grid (front_mat px)"
    and "\<not> (is_variable (front_mat_behind px) False \<and> do_averaging (front_mat_behind px))"
    and "material_type_equal (front_mat px) (front_mat_behind px)"
    and "grid_interface g px (front_mat px) = Inr (n, f, False)"
  shows "eff_chi1inv_matrix g px =
     (case eval_material_pt g (front_mat px) (px_center px) of
        Inl e \<Rightarrow> Inl e
      | Inr mat \<Rightarrow> eff_trivial g px mat)"
proof -
  have v: "\<not> is_variable (front_mat px) False" "is_variable (front_mat px) True"
    using assms(2) by (simp_all add: is_variable_def is_material_grid_def)
  show ?thesis
    using assms v by (auto simp add: eff_chi1inv_matrix_def Let_def)
qed

lemma tanh_projection_beta_zero: "tanh_projection u 0 e = u"
  by (simp add: tanh_projection_def)

lemma eval_sample_grid:
  "\<exists>G'. eval_material_pt (sample_geom grid_block)
            (sample_material 4 MATERIAL_GRID U_DEFAULT 1) \<lparr>vx = 3 / 20, vy = 1 / 5, vz = 0\<rparr> = Inr G' \<and>
         which_subclass G' = MATERIAL_GRID \<and> addr G' = 4 \<and>
         medium_tensor (epsilon_diag (medium G')) (epsilon_offdiag (medium G')) = isotropic (16 / 5) \<and>
         epsilon_diag (medium G') = \<lparr>vx = 16 / 5, vy = 16 / 5, vz = 16 / 5\<rparr>"
proof -
  have s: "which_subclass (sample_material 4 MATERIAL_GRID U_DEFAULT 1) = MATERIAL_GRID"
    "beta (sample_material 4 MATERIAL_GRID U_DEFAULT 1) = 0"
    "u_p (sample_geom grid_block) = 0"
    by (simp_all add: sample_material_def sample_geom_def)
  have e: "eval_material_pt (sample_geom grid_block)
            (sample_material 4 MATERIAL_GRID U_DEFAULT 1) \<lparr>vx = 3 / 20, vy = 1 / 5, vz = 0\<rparr> =
           epsilon_material_grid (sample_material 4 MATERIAL_GRID U_DEFAULT 1) (1 / 5)"
    by (simp add: eval_material_pt_def s grid_block_center sample_grid_val tanh_projection_beta_zero)
  show ?thesis
    unfolding e
    by (simp add: epsilon_material_grid_def sample_material_def iso_medium_def Let_def
        cinterp_tensors_def interp_tensors_def interp_vector3_def interp_complex_def
        czero3_def zero3_def medium_tensor_def isotropic_def)
qed


lemma kottke_average_x_isotropic:
  assumes "e1 \<noteq> 0" and "e2 \<noteq> 0" and "f * (- 1 / e1) + (1 - f) * (- 1 / e2) \<noteq> 0"
  shows "kottke_average f \<lparr>vx = 1, vy = 0, vz = 0\<rparr> (isotropic e1) (isotropic e2) =
           Inr \<lparr>m00 = - 1 / (f * (- 1 / e1) + (1 - f) * (- 1 / e2)), m01 = 0, m02 = 0,
                m11 = f * e1 + (1 - f) * e2, m12 = 0, m22 = f * e1 + (1 - f) * e2\<rparr>"
proof -
  have s: "(1::real) = 1 \<or> (1::real) = - 1"
    by simp
  show ?thesis
    by (simp only: kottke_average_def kottke_rotation_x [OF s] rotate_isotropic_x [OF s]
        kottke_mixing_isotropic [OF assms] sum.case rotate_back_x [OF s])
qed

text \<open>
  Claim C6, evaluated where the code departs from it.
  \<^item> With the threshold through the center (\<open>d = 0\<close>) half of the sample region lies beyond
    it.  The 1-D and the 2-D branch of \<^verbatim>\<open>get_material_grid_fill\<close> return \<open>1 / 2\<close>; the 3-D
    branch returns \<open>1 / (2 * pi)\<close>, its divisor \<^verbatim>\<open>4*meep::pi*r*r*r\<close> having a factor \<open>pi\<close> that
    the fraction of a spherical cap, \<open>(r - d)\<^sup>2 (2 r + d) / (4 r\<^sup>3)\<close>, does not have.
  \<^item> A grid whose weight at the center is 0.2, with threshold 0.5 and gradient
    \<open>(0.25, 0, 0)\<close>, lies in front of a vacuum on a pixel of radius 0.25: the distance to
    the threshold is 1.2,
    \<^verbatim>\<open>get_material_grid_fill\<close> stores \<open>False\<close> in \<^verbatim>\<open>mg_averaging\<close> and returns \<open>- 1\<close>, and since
    the two materials differ the routine goes on to the mixing step with that fill: the
    result has the diagonal \<open>(27/16, - 5/6, - 5/6)\<close>, not the inverse tensor \<open>5/16\<close> of the
    grid at the center nor that of the vacuum.
\<close>

theorem grid_far_threshold_mixed_with_garbage_fill:
  "get_material_grid_fill D1 (Fin 0) 1 0 (1 / 2) = Inr (1 / 2, True) \<and>
   get_material_grid_fill D2 (Fin 0) 1 0 (1 / 2) = Inr (1 / 2, True) \<and>
   get_material_grid_fill D3 (Fin 0) 1 0 (1 / 2) = Inr (1 / (2 * pi), True) \<and>
   grid_interface (sample_geom grid_block)
     (sample_pixel (sample_material 4 MATERIAL_GRID U_DEFAULT 1) (sample_material 0 MEDIUM U_DEFAULT 1)
        \<lparr>vx = 3 / 20, vy = 1 / 5, vz = 0\<rparr> zero3 \<lparr>vx = 1, vy = 0, vz = 0\<rparr>)
     (sample_material 4 MATERIAL_GRID U_DEFAULT 1) =
     Inr (Some \<lparr>vx = 1, vy = 0, vz = 0\<rparr>, - 1, False) \<and>
   eff_chi1inv_matrix (sample_geom grid_block)
     (sample_pixel (sample_material 4 MATERIAL_GRID U_DEFAULT 1) (sample_material 0 MEDIUM U_DEFAULT 1)
        \<lparr>vx = 3 / 20, vy = 1 / 5, vz = 0\<rparr> zero3 \<lparr>vx = 1, vy = 0, vz = 0\<rparr>) =
     Inr (Matrix \<lparr>m00 = Fin (27 / 16), m01 = Fin 0, m02 = Fin 0,
                  m11 = Fin (- 5 / 6), m12 = Fin 0, m22 = Fin (- 5 / 6)\<rparr>)"
proof -
  let ?g = "sample_geom grid_block"
  let ?G = "sample_material 4 MATERIAL_GRID U_DEFAULT 1"
  let ?M = "sample_material 0 MEDIUM U_DEFAULT 1"
  let ?c = "\<lparr>vx = 3 / 20, vy = 1 / 5, vz = 0\<rparr>"
  let ?px = "sample_pixel ?G ?M ?c zero3 \<lparr>vx = 1, vy = 0, vz = 0\<rparr>"
  from eval_sample_grid obtain G' where
    ev: "eval_material_pt ?g ?G ?c = Inr G'" and sc: "which_subclass G' = MATERIAL_GRID"
    and ad: "addr G' = 4"
    and mt: "medium_tensor (epsilon_diag (medium G')) (epsilon_offdiag (medium G')) = isotropic (16 / 5)"
    and ed: "epsilon_diag (medium G') = \<lparr>vx = 16 / 5, vy = 16 / 5, vz = 16 / 5\<rparr>"
    by blast
  have evM: "eval_material_pt ?g ?M zero3 = Inr ?M"
    by (rule eval_material_pt_medium) (rule sample_material_subclass)
  have ne1: "\<not> material_type_equal ?G ?M"
    by (rule sample_materials_differ) simp_all
  have ne2: "\<not> material_type_equal G' ?M"
    by (simp add: material_type_equal_def ad sc) (simp add: sample_material_def)
  have nv: "\<not> (is_variable ?G False \<and> do_averaging ?G)" "\<not> (is_variable ?M False \<and> do_averaging ?M)"
    by (simp_all add: is_variable_def sample_is_grid sample_material_def)
  have gr: "is_material_grid ?G" "is_material_grid G'"
    by (simp_all add: is_material_grid_def sc sample_material_subclass)
  have nm: "\<not> is_metal E_stuff G'" "\<not> is_metal E_stuff ?M"
    by (simp add: is_metal_def sc ed, rule sample_not_metal, simp_all)
  have e1: "material_epsmu ?g E_stuff G' =
     Inr (isotropic (16 / 5), \<lparr>m00 = fdiv 1 (16 / 5), m01 = Fin 0, m02 = Fin 0,
                        m11 = fdiv 1 (16 / 5), m12 = Fin 0, m22 = fdiv 1 (16 / 5)\<rparr>)"
    by (rule material_epsmu_isotropic) (simp_all add: sc mt)
  have e2: "material_epsmu ?g E_stuff ?M =
     Inr (isotropic 1, \<lparr>m00 = fdiv 1 1, m01 = Fin 0, m02 = Fin 0,
                        m11 = fdiv 1 1, m12 = Fin 0, m22 = fdiv 1 1\<rparr>)"
    by (rule material_epsmu_sample) simp
  have ka: "kottke_average (- 1) \<lparr>vx = 1, vy = 0, vz = 0\<rparr> (isotropic (16 / 5)) (isotropic 1) =
      Inr \<lparr>m00 = 16 / 27, m01 = 0, m02 = 0, m11 = - 6 / 5, m12 = 0, m22 = - 6 / 5\<rparr>"
    using kottke_average_x_isotropic [of "16 / 5" 1 "- 1"] by simp
  have db: "\<not> debug ?g"
    by (simp add: sample_geom_def)
  have kt: "eff_kottke ?g ?px G' ?M (Some \<lparr>vx = 1, vy = 0, vz = 0\<rparr>) (- 1) =
      Inr (Matrix \<lparr>m00 = Fin (27 / 16), m01 = Fin 0, m02 = Fin 0,
                  m11 = Fin (- 5 / 6), m12 = Fin 0, m22 = Fin (- 5 / 6)\<rparr>)"
    by (simp add: eff_kottke_def sample_pixel_fields e1 e2 ka db sym_matrix_invert_def
        offdiag_zero_def fdiv_def)
  have av: "eff_average ?g ?px G' ?M (Some (Some \<lparr>vx = 1, vy = 0, vz = 0\<rparr>, - 1, False)) =
      eff_kottke ?g ?px G' ?M (Some \<lparr>vx = 1, vy = 0, vz = 0\<rparr>) (- 1)"
    using nm gr by (simp add: eff_average_def sample_pixel_fields)
  have "eff_chi1inv_matrix ?g ?px =
      eff_average ?g ?px G' ?M (Some (Some \<lparr>vx = 1, vy = 0, vz = 0\<rparr>, - 1, False))"
    using nv gr ne1 ne2
    by (auto simp add: eff_chi1inv_matrix_def Let_def sample_pixel_fields sample_grid_interface ev evM)
  with av kt sample_grid_interface [of ?G ?M ?c zero3 "\<lparr>vx = 1, vy = 0, vz = 0\<rparr>" 1] grid_fill_half_space
  show ?thesis
    by simp
qed


end
